theory Spec2Isabelle
  imports Complex_Main "HOL-Library.AList"
begin

section \<open>JSON values and Python dictionaries\<close>

text \<open>
  The server works on values decoded from JSON and on the Python values the agent
  function returns. A dictionary is an association list in insertion order, as a
  Python dict keeps it; a decoded dict has each key once. A string is a list of
  characters, each standing for one code point below 256. Floating-point numbers are
  carried as reals: the code only tests them for truth and passes them on.
\<close>

datatype json =
    JNull
  | JBool bool
  | JInt int
  | JFloat real
  | JStr string
  | JList "json list"
  | JDict "(string \<times> json) list"

type_synonym pydict = "(string \<times> json) list"

text \<open>\<^verbatim>\<open>d.get(k, default)\<close>, \<^verbatim>\<open>d.get(k)\<close> and \<^verbatim>\<open>k in d\<close>.\<close>

definition dict_get_default :: "pydict \<Rightarrow> string \<Rightarrow> json \<Rightarrow> json" where
  "dict_get_default d k dflt = (case map_of d k of None \<Rightarrow> dflt | Some v \<Rightarrow> v)"

definition dict_get :: "pydict \<Rightarrow> string \<Rightarrow> json" where
  "dict_get d k = dict_get_default d k JNull"

definition dict_contains :: "pydict \<Rightarrow> string \<Rightarrow> bool" where
  "dict_contains d k = (map_of d k \<noteq> None)"

text \<open>Python truth value of a decoded value (\<^verbatim>\<open>if v:\<close>, \<^verbatim>\<open>a or b\<close>).\<close>

fun truthy :: "json \<Rightarrow> bool" where
  "truthy JNull = False"
| "truthy (JBool b) = b"
| "truthy (JInt i) = (i \<noteq> 0)"
| "truthy (JFloat r) = (r \<noteq> 0)"
| "truthy (JStr s) = (s \<noteq> [])"
| "truthy (JList xs) = (xs \<noteq> [])"
| "truthy (JDict d) = (d \<noteq> [])"

definition py_or :: "json \<Rightarrow> json \<Rightarrow> json" where
  "py_or a b = (if truthy a then a else b)"

text \<open>
  \<^verbatim>\<open>str.strip()\<close> with no argument removes leading and trailing whitespace; below 256
  the whitespace code points are 9 to 13, 28 to 32, 133 and 160.
\<close>

definition py_isspace :: "char \<Rightarrow> bool" where
  "py_isspace c = (let n = (of_char c :: nat) in
     (9 \<le> n \<and> n \<le> 13) \<or> (28 \<le> n \<and> n \<le> 32) \<or> n = 133 \<or> n = 160)"

definition strip :: "string \<Rightarrow> string" where
  "strip s = rev (dropWhile py_isspace (rev (dropWhile py_isspace s)))"

text \<open>\<^verbatim>\<open>isinstance(v, str) and v.strip()\<close>, as a truth value.\<close>

fun nonblank_str :: "json \<Rightarrow> bool" where
  "nonblank_str (JStr s) = (strip s \<noteq> [])"
| "nonblank_str _ = False"

section \<open>The input extractor\<close>

text \<open>
  The loop over the direct fields of \<^verbatim>\<open>_extract_input_from_jsonrpc\<close>:
  \<^verbatim>\<open>for k in [...]: if isinstance(params.get(k), str) and params[k].strip(): return params[k], meta\<close>.
  \<open>None\<close> is falling out of the loop.
\<close>

fun scan_direct :: "pydict \<Rightarrow> string list \<Rightarrow> string option" where
  "scan_direct params [] = None"
| "scan_direct params (k # ks) =
     (case dict_get params k of
        JStr s \<Rightarrow> if strip s \<noteq> [] then Some s else scan_direct params ks
      | _ \<Rightarrow> scan_direct params ks)"

definition direct_fields :: "string list" where
  "direct_fields = [''input_text'', ''text'', ''chunk_text'', ''content'']"

definition meta_task_id :: "pydict \<Rightarrow> pydict \<Rightarrow> pydict" where
  "meta_task_id params meta =
     (if dict_contains params ''task_id''
      then AList.update ''task_id'' (dict_get params ''task_id'') meta else meta)"

definition meta_schema :: "pydict \<Rightarrow> pydict \<Rightarrow> pydict" where
  "meta_schema params meta =
     (case map_of params ''schema'' of
        Some (JDict schema) \<Rightarrow>
          AList.update ''schema_version'' (dict_get schema ''version'')
            (AList.update ''schema_name'' (dict_get schema ''name'') meta)
      | _ \<Rightarrow> meta)"

definition meta_paper :: "pydict \<Rightarrow> pydict \<Rightarrow> pydict" where
  "meta_paper params meta =
     (case dict_get params ''paper'' of
        JDict paper \<Rightarrow>
          AList.update ''input_doi'' (py_or (dict_get paper ''doi'') (dict_get meta ''input_doi'')) meta
      | _ \<Rightarrow> meta)"

text \<open>
  \<^verbatim>\<open>inp = params.get("input") if isinstance(params.get("input"), dict) else None\<close>
  followed by \<^verbatim>\<open>if inp:\<close>: the branch is taken for a non-empty dict only.
\<close>

definition input_record :: "pydict \<Rightarrow> pydict option" where
  "input_record params =
     (case dict_get params ''input'' of
        JDict inp \<Rightarrow> if inp \<noteq> [] then Some inp else None
      | _ \<Rightarrow> None)"

definition meta_input :: "pydict \<Rightarrow> pydict \<Rightarrow> pydict" where
  "meta_input inp meta =
     AList.update ''content_type'' (dict_get inp ''content_type'')
       (AList.update ''chunk_id'' (dict_get inp ''chunk_id'') meta)"

definition extract_input_from_jsonrpc :: "json \<Rightarrow> string option \<times> pydict" where
  "extract_input_from_jsonrpc params =
     (case params of
        JDict p \<Rightarrow>
          (let meta = meta_paper p (meta_schema p (meta_task_id p [])) in
           case input_record p of
             Some inp \<Rightarrow>
               (let meta' = meta_input inp meta in
                case dict_get inp ''text'' of
                  JStr text \<Rightarrow>
                    if strip text \<noteq> [] then (Some text, meta')
                    else (scan_direct p direct_fields, meta')
                | _ \<Rightarrow> (scan_direct p direct_fields, meta'))
           | None \<Rightarrow> (scan_direct p direct_fields, meta))
      | _ \<Rightarrow> (None, []))"

section \<open>The output schema\<close>

text \<open>
  The four models of \<^verbatim>\<open>schema.py\<close>, each with \<^verbatim>\<open>extra="allow"\<close>: the declared fields
  with their declared types (\<^verbatim>\<open>Optional[Any]\<close> is any value, null included), and the
  fields the model does not declare, kept in the order they came in.
\<close>

record Paper =
  doi :: "string option"
  title :: "string option"
  year :: "(int + string) option"
  paper_extra :: pydict

record Equation =
  latex :: "string option"
  model_performance :: json
  equation_extra :: pydict

record ExtractionMetadata =
  task_id :: "string option"
  input_doi :: "string option"
  schema_name :: "string option"
  schema_version :: "string option"
  metadata_extra :: pydict

record ExtractionOutput =
  paper :: Paper
  equations :: "Equation list"
  extraction_metadata :: ExtractionMetadata
  output_extra :: pydict

definition Paper_fields :: "string list" where
  "Paper_fields = [''doi'', ''title'', ''year'']"

definition Equation_fields :: "string list" where
  "Equation_fields = [''latex'', ''model_performance'']"

definition ExtractionMetadata_fields :: "string list" where
  "ExtractionMetadata_fields = [''task_id'', ''input_doi'', ''schema_name'', ''schema_version'']"

definition ExtractionOutput_fields :: "string list" where
  "ExtractionOutput_fields = [''paper'', ''equations'', ''extraction_metadata'']"

subsection \<open>Validation\<close>

text \<open>
  The validation engine (\<^verbatim>\<open>model_validate\<close>, \<^verbatim>\<open>model_dump\<close>, the entries of
  \<^verbatim>\<open>e.errors()\<close>) belongs to the validation library and is not part of \<^verbatim>\<open>schema.py\<close>; the
  definitions of this section that embed it follow the spec's description of the schema
  validator, over the fields and types that \<^verbatim>\<open>schema.py\<close> declares.
\<close>

text \<open>
  Modelled from the spec: an entry of the error list, which the library builds. It names
  the path of the offending value (field names, and positions in \<^verbatim>\<open>equations\<close>) and
  carries a message.
\<close>

datatype loc_item = Key string | Pos nat

record FieldError =
  field_path :: "loc_item list"
  message :: string

type_synonym 'a validated = "FieldError list + 'a"

text \<open>Modelled from the spec: a failure with one error, as the library reports it.\<close>

definition field_error :: "loc_item list \<Rightarrow> string \<Rightarrow> 'a validated" where
  "field_error loc msg = Inl [\<lparr>field_path = loc, message = msg\<rparr>]"

text \<open>Modelled from the spec: the errors a validation of the library found, none on success.\<close>

fun errors_of :: "'a validated \<Rightarrow> FieldError list" where
  "errors_of (Inl es) = es"
| "errors_of (Inr _) = []"

text \<open>
  Modelled from the spec: the library's validation of a value declared
  \<^verbatim>\<open>Optional[str]\<close>. Null is taken; a value that is not a string is a field error at its
  path.
\<close>

fun validate_optional_str :: "loc_item list \<Rightarrow> json \<Rightarrow> string option validated" where
  "validate_optional_str loc JNull = Inr None"
| "validate_optional_str loc (JStr s) = Inr (Some s)"
| "validate_optional_str loc _ = field_error loc ''Input should be a valid string''"

text \<open>
  Modelled from the spec: the library's validation of a value declared
  \<^verbatim>\<open>Optional[Union[int, str]]\<close>. A value that is neither an integer nor a string is a field
  error at its path.
\<close>

fun validate_optional_int_or_str :: "loc_item list \<Rightarrow> json \<Rightarrow> (int + string) option validated" where
  "validate_optional_int_or_str loc JNull = Inr None"
| "validate_optional_int_or_str loc (JInt i) = Inr (Some (Inl i))"
| "validate_optional_int_or_str loc (JStr s) = Inr (Some (Inr s))"
| "validate_optional_int_or_str loc _ = field_error loc ''Input should be a valid integer or string''"

text \<open>
  Modelled from the spec: what the library keeps under \<^verbatim>\<open>extra="allow"\<close>, the fields of a
  dict that the model does not declare.
\<close>

definition extra_fields :: "string list \<Rightarrow> pydict \<Rightarrow> pydict" where
  "extra_fields declared d = filter (\<lambda>kv. fst kv \<notin> set declared) d"

text \<open>
  Modelled from the spec: the library's validation of a value as \<^verbatim>\<open>Paper\<close>. The value
  must be a keyed record; a missing optional field is null; every declared field is
  checked and the errors of all of them are collected in field order; on success the
  undeclared fields are kept.
\<close>

definition validate_Paper :: "loc_item list \<Rightarrow> json \<Rightarrow> Paper validated" where
  "validate_Paper loc v =
     (case v of
        JDict d \<Rightarrow>
          (let r1 = validate_optional_str (loc @ [Key ''doi'']) (dict_get d ''doi'');
               r2 = validate_optional_str (loc @ [Key ''title'']) (dict_get d ''title'');
               r3 = validate_optional_int_or_str (loc @ [Key ''year'']) (dict_get d ''year'')
           in case (r1, r2, r3) of
                (Inr a, Inr b, Inr c) \<Rightarrow>
                  Inr \<lparr>doi = a, title = b, year = c, paper_extra = extra_fields Paper_fields d\<rparr>
              | _ \<Rightarrow> Inl (errors_of r1 @ errors_of r2 @ errors_of r3))
      | _ \<Rightarrow> field_error loc ''Input should be a valid dictionary'')"

text \<open>
  Modelled from the spec: the library's validation of a value as \<^verbatim>\<open>Equation\<close>;
  \<^verbatim>\<open>model_performance\<close> takes any value.
\<close>

definition validate_Equation :: "loc_item list \<Rightarrow> json \<Rightarrow> Equation validated" where
  "validate_Equation loc v =
     (case v of
        JDict d \<Rightarrow>
          (let r1 = validate_optional_str (loc @ [Key ''latex'']) (dict_get d ''latex'')
           in case r1 of
                Inr a \<Rightarrow>
                  Inr \<lparr>latex = a, model_performance = dict_get d ''model_performance'',
                       equation_extra = extra_fields Equation_fields d\<rparr>
              | Inl es \<Rightarrow> Inl es)
      | _ \<Rightarrow> field_error loc ''Input should be a valid dictionary'')"

text \<open>Modelled from the spec: the library's validation of a value as \<^verbatim>\<open>ExtractionMetadata\<close>.\<close>

definition validate_ExtractionMetadata :: "loc_item list \<Rightarrow> json \<Rightarrow> ExtractionMetadata validated" where
  "validate_ExtractionMetadata loc v =
     (case v of
        JDict d \<Rightarrow>
          (let r1 = validate_optional_str (loc @ [Key ''task_id'']) (dict_get d ''task_id'');
               r2 = validate_optional_str (loc @ [Key ''input_doi'']) (dict_get d ''input_doi'');
               r3 = validate_optional_str (loc @ [Key ''schema_name'']) (dict_get d ''schema_name'');
               r4 = validate_optional_str (loc @ [Key ''schema_version'']) (dict_get d ''schema_version'')
           in case (r1, r2, r3, r4) of
                (Inr a, Inr b, Inr c, Inr e) \<Rightarrow>
                  Inr \<lparr>task_id = a, input_doi = b, schema_name = c, schema_version = e,
                       metadata_extra = extra_fields ExtractionMetadata_fields d\<rparr>
              | _ \<Rightarrow> Inl (errors_of r1 @ errors_of r2 @ errors_of r3 @ errors_of r4))
      | _ \<Rightarrow> field_error loc ''Input should be a valid dictionary'')"

text \<open>
  Modelled from the spec: the library's validation of the elements of \<^verbatim>\<open>equations\<close>, from
  position \<open>i\<close> on. Every element is validated, also after one has failed.
\<close>

fun validate_items :: "loc_item list \<Rightarrow> nat \<Rightarrow> json list \<Rightarrow> Equation list validated" where
  "validate_items loc i [] = Inr []"
| "validate_items loc i (v # vs) =
     (let r = validate_Equation (loc @ [Pos i]) v;
          rs = validate_items loc (Suc i) vs
      in case (r, rs) of
           (Inr e, Inr es) \<Rightarrow> Inr (e # es)
         | _ \<Rightarrow> Inl (errors_of r @ errors_of rs))"

text \<open>
  Modelled from the spec: the library's validation of a value declared
  \<^verbatim>\<open>List[Equation]\<close>; it must be a sequence.
\<close>

definition validate_Equation_list :: "loc_item list \<Rightarrow> json \<Rightarrow> Equation list validated" where
  "validate_Equation_list loc v =
     (case v of
        JList vs \<Rightarrow> validate_items loc 0 vs
      | _ \<Rightarrow> field_error loc ''Input should be a valid list'')"

text \<open>
  Modelled from the spec: the library's treatment of a field declared without default; a
  missing one is a field error.
\<close>

definition required_field ::
    "pydict \<Rightarrow> string \<Rightarrow> (loc_item list \<Rightarrow> json \<Rightarrow> 'a validated) \<Rightarrow> 'a validated" where
  "required_field d k validate =
     (case map_of d k of
        None \<Rightarrow> field_error [Key k] ''Field required''
      | Some v \<Rightarrow> validate [Key k] v)"

text \<open>
  Modelled from the spec: \<^verbatim>\<open>ExtractionOutput.model_validate\<close> of the library. All three
  fields are validated and the errors of all of them are collected, in field order.
\<close>

definition model_validate :: "json \<Rightarrow> ExtractionOutput validated" where
  "model_validate v =
     (case v of
        JDict d \<Rightarrow>
          (let r1 = required_field d ''paper'' validate_Paper;
               r2 = required_field d ''equations'' validate_Equation_list;
               r3 = required_field d ''extraction_metadata'' validate_ExtractionMetadata
           in case (r1, r2, r3) of
                (Inr p, Inr es, Inr m) \<Rightarrow>
                  Inr \<lparr>paper = p, equations = es, extraction_metadata = m,
                       output_extra = extra_fields ExtractionOutput_fields d\<rparr>
              | _ \<Rightarrow> Inl (errors_of r1 @ errors_of r2 @ errors_of r3))
      | _ \<Rightarrow> field_error [] ''Input should be a valid dictionary'')"

subsection \<open>Serialisation\<close>

text \<open>
  Modelled from the spec: the library's serialisation of a validated optional string.
\<close>

fun dump_optional_str :: "string option \<Rightarrow> json" where
  "dump_optional_str None = JNull"
| "dump_optional_str (Some s) = JStr s"

text \<open>
  Modelled from the spec: the library's serialisation of a validated optional integer or
  string.
\<close>

fun dump_optional_int_or_str :: "(int + string) option \<Rightarrow> json" where
  "dump_optional_int_or_str None = JNull"
| "dump_optional_int_or_str (Some (Inl i)) = JInt i"
| "dump_optional_int_or_str (Some (Inr s)) = JStr s"

text \<open>
  Modelled from the spec: the library's serialisation of a \<^verbatim>\<open>Paper\<close>, the declared fields
  in declaration order, then the undeclared fields.
\<close>

definition dump_Paper :: "Paper \<Rightarrow> json" where
  "dump_Paper p =
     JDict ([(''doi'', dump_optional_str (doi p)), (''title'', dump_optional_str (title p)),
             (''year'', dump_optional_int_or_str (year p))] @ paper_extra p)"

text \<open>Modelled from the spec: the library's serialisation of an \<^verbatim>\<open>Equation\<close>.\<close>

definition dump_Equation :: "Equation \<Rightarrow> json" where
  "dump_Equation e =
     JDict ([(''latex'', dump_optional_str (latex e)),
             (''model_performance'', model_performance e)] @ equation_extra e)"

text \<open>Modelled from the spec: the library's serialisation of an \<^verbatim>\<open>ExtractionMetadata\<close>.\<close>

definition dump_ExtractionMetadata :: "ExtractionMetadata \<Rightarrow> json" where
  "dump_ExtractionMetadata m =
     JDict ([(''task_id'', dump_optional_str (task_id m)),
             (''input_doi'', dump_optional_str (input_doi m)),
             (''schema_name'', dump_optional_str (schema_name m)),
             (''schema_version'', dump_optional_str (schema_version m))] @ metadata_extra m)"

text \<open>Modelled from the spec: \<^verbatim>\<open>model_dump\<close> of the library, on an \<^verbatim>\<open>ExtractionOutput\<close>.\<close>

definition model_dump :: "ExtractionOutput \<Rightarrow> json" where
  "model_dump out =
     JDict ([(''paper'', dump_Paper (paper out)),
             (''equations'', JList (map dump_Equation (equations out))),
             (''extraction_metadata'', dump_ExtractionMetadata (extraction_metadata out))]
            @ output_extra out)"

text \<open>Modelled from the spec: an item of an error's path, as the response carries it.\<close>

fun loc_item_json :: "loc_item \<Rightarrow> json" where
  "loc_item_json (Key k) = JStr k"
| "loc_item_json (Pos i) = JInt (int i)"

text \<open>
  Modelled from the spec: an entry of \<^verbatim>\<open>e.errors()\<close> of the library, as the response
  carries it.
\<close>

definition FieldError_json :: "FieldError \<Rightarrow> json" where
  "FieldError_json e =
     JDict [(''field_path'', JList (map loc_item_json (field_path e))),
            (''message'', JStr (message e))]"

section \<open>The JSON-RPC handler\<close>

definition jsonrpc_success :: "json \<Rightarrow> json \<Rightarrow> json" where
  "jsonrpc_success rpc_id result =
     JDict [(''jsonrpc'', JStr ''2.0''), (''id'', rpc_id), (''result'', result)]"

text \<open>\<^verbatim>\<open>data\<close> defaults to \<^verbatim>\<open>None\<close> and is stored only when it is not \<^verbatim>\<open>None\<close>.\<close>

definition jsonrpc_error :: "json \<Rightarrow> int \<Rightarrow> string \<Rightarrow> json \<Rightarrow> json" where
  "jsonrpc_error rpc_id code msg data =
     (let err = [(''code'', JInt code), (''message'', JStr msg)];
          err' = (if data \<noteq> JNull then AList.update ''data'' data err else err)
      in JDict [(''jsonrpc'', JStr ''2.0''), (''id'', rpc_id), (''error'', JDict err')])"

definition run_agent_stub :: "string \<Rightarrow> pydict \<Rightarrow> json" where
  "run_agent_stub text meta =
     JDict
      [(''paper'',
        JDict [(''doi'', dict_get meta ''input_doi''), (''title'', JNull), (''year'', JNull)]),
       (''equations'',
        JList
         [JDict
           [(''latex'', JNull), (''model_performance'', JNull),
            (''notes'',
             JStr ''STUB: replace run_agent_fn with your extractor; latex/performance are required fields.'')]]),
       (''extraction_metadata'',
        JDict
         [(''task_id'', dict_get meta ''task_id''), (''input_doi'', dict_get meta ''input_doi''),
          (''schema_name'', dict_get meta ''schema_name''),
          (''schema_version'', dict_get meta ''schema_version'')])]"

text \<open>
  What escapes a call as an exception: \<^verbatim>\<open>body.get\<close> on a body that is not a dict, and
  whatever the agent function raises. The agent function is the caller's; it returns a
  value or raises.
\<close>

datatype pyexn = AttributeError | AgentRaised string

type_synonym agent_fn = "string \<Rightarrow> pydict \<Rightarrow> pyexn + json"

definition call_agent :: "agent_fn option \<Rightarrow> string \<Rightarrow> pydict \<Rightarrow> pyexn + json" where
  "call_agent run_agent_fn_local text meta =
     (case run_agent_fn_local of
        None \<Rightarrow> Inr (run_agent_stub text meta)
      | Some f \<Rightarrow> f text meta)"

text \<open>
  The handler's steps, in the order it takes them: the extraction from \<^verbatim>\<open>params\<close>, the
  call of the agent function with its arguments, the validation of its output.
\<close>

datatype step = Extraction json | AgentCall string pydict | Validation json

definition missing_text_message :: string where
  "missing_text_message = ''Missing input text in params (expected input.text or input_text).''"

definition schema_mismatch_message :: string where
  "schema_mismatch_message =
     ''White agent returned JSON that does not match required schema (paper/equations/extraction_metadata).''"

text \<open>
  \<^verbatim>\<open>_handle_single_jsonrpc\<close>: the steps taken, and either the exception that leaves the
  handler or what it returns (\<open>None\<close> for Python's \<^verbatim>\<open>None\<close>). \<^verbatim>\<open>not text\<close> holds for
  \<^verbatim>\<open>None\<close> and for the empty string. Only the validation is inside \<^verbatim>\<open>try\<close>, and only
  the validation error is caught.
\<close>

definition handle_single_jsonrpc ::
    "json \<Rightarrow> agent_fn option \<Rightarrow> step list \<times> (pyexn + json option)" where
  "handle_single_jsonrpc body run_agent_fn_local =
     (case body of
        JDict b \<Rightarrow>
          (let rpc_id = dict_get_default b ''id'' JNull;
               method = dict_get_default b ''method'' (JStr []);
               params = dict_get_default b ''params'' (JDict [])
           in if rpc_id = JNull then ([], Inr None)
              else
                (case extract_input_from_jsonrpc params of
                   (text, meta) \<Rightarrow>
                     (case (if text = Some [] then None else text) of
                        None \<Rightarrow>
                          ([Extraction params],
                           Inr (Some (jsonrpc_error rpc_id (- 32602) missing_text_message
                                       (JDict [(''method'', method)]))))
                      | Some t \<Rightarrow>
                          (case call_agent run_agent_fn_local t meta of
                             Inl e \<Rightarrow> ([Extraction params, AgentCall t meta], Inl e)
                           | Inr output_dict \<Rightarrow>
                               ([Extraction params, AgentCall t meta, Validation output_dict],
                                (case model_validate output_dict of
                                   Inl errors \<Rightarrow>
                                     Inr (Some (jsonrpc_error rpc_id (- 32000) schema_mismatch_message
                                                 (JDict [(''validation_errors'',
                                                          JList (map FieldError_json errors))])))
                                 | Inr validated \<Rightarrow>
                                     Inr (Some (jsonrpc_success rpc_id (model_dump validated)))))))))
      | _ \<Rightarrow> ([], Inl AttributeError))"

text \<open>
  The batch loop of \<^verbatim>\<open>jsonrpc_root\<close>: \<open>responses\<close> and the steps so far are carried
  along; an exception ends the loop.
\<close>

fun batch_loop ::
    "json list \<Rightarrow> agent_fn option \<Rightarrow> json list \<Rightarrow> step list \<Rightarrow> step list \<times> (pyexn + json list)" where
  "batch_loop [] run_agent_fn responses steps = (steps, Inr responses)"
| "batch_loop (item # rest) run_agent_fn responses steps =
     (case handle_single_jsonrpc item run_agent_fn of
        (steps', Inl e) \<Rightarrow> (steps @ steps', Inl e)
      | (steps', Inr None) \<Rightarrow> batch_loop rest run_agent_fn responses (steps @ steps')
      | (steps', Inr (Some resp)) \<Rightarrow>
          batch_loop rest run_agent_fn (responses @ [resp]) (steps @ steps'))"

definition jsonrpc_root :: "json \<Rightarrow> agent_fn option \<Rightarrow> step list \<times> (pyexn + json option)" where
  "jsonrpc_root payload run_agent_fn =
     (case payload of
        JList items \<Rightarrow>
          (case batch_loop items run_agent_fn [] [] of
             (steps, Inl e) \<Rightarrow> (steps, Inl e)
           | (steps, Inr responses) \<Rightarrow> (steps, Inr (Some (JList responses))))
      | _ \<Rightarrow> handle_single_jsonrpc payload run_agent_fn)"

section \<open>Notions used in the statements\<close>

text \<open>A string with at least one character that is not whitespace.\<close>

definition nonempty_string :: "json \<Rightarrow> bool" where
  "nonempty_string v = (case v of JStr s \<Rightarrow> \<not> list_all py_isspace s | _ \<Rightarrow> False)"

definition string_value :: "json \<Rightarrow> string option" where
  "string_value v = (case v of JStr s \<Rightarrow> Some s | _ \<Rightarrow> None)"

definition meta_keys :: "string set" where
  "meta_keys = {''task_id'', ''schema_name'', ''schema_version'', ''input_doi'', ''chunk_id'',
     ''content_type''}"

text \<open>An agent function that always raises, and one that raises on one text only.\<close>

definition raising_agent :: agent_fn where
  "raising_agent text meta = Inl (AgentRaised ''extractor crashed'')"

definition fussy_agent :: agent_fn where
  "fussy_agent text meta =
     (if text = ''bad'' then Inl (AgentRaised ''extractor crashed'')
      else Inr (run_agent_stub text meta))"

text \<open>A request and a notification that carry their text in \<^verbatim>\<open>input_text\<close>.\<close>

definition text_request :: "int \<Rightarrow> string \<Rightarrow> json" where
  "text_request i t =
     JDict [(''jsonrpc'', JStr ''2.0''), (''id'', JInt i), (''method'', JStr ''extract''),
            (''params'', JDict [(''input_text'', JStr t)])]"

definition text_notification :: "string \<Rightarrow> json" where
  "text_notification t =
     JDict [(''jsonrpc'', JStr ''2.0''), (''method'', JStr ''extract''),
            (''params'', JDict [(''input_text'', JStr t)])]"

text \<open>
  Whether a call of the handler returned (rather than raised), and the response it
  returned, if any.
\<close>

definition returns :: "step list \<times> (pyexn + json option) \<Rightarrow> bool" where
  "returns r = (case snd r of Inl e \<Rightarrow> False | Inr v \<Rightarrow> True)"

definition response_of :: "step list \<times> (pyexn + json option) \<Rightarrow> json option" where
  "response_of r = (case snd r of Inl e \<Rightarrow> None | Inr v \<Rightarrow> v)"

text \<open>
  The schema validator as the handler uses it: validation, and on success the
  serialisation of the validated value (the normalized value).
\<close>

definition schema_validator :: "json \<Rightarrow> json validated" where
  "schema_validator v =
     (case model_validate v of Inl errors \<Rightarrow> Inl errors | Inr out \<Rightarrow> Inr (model_dump out))"

text \<open>The fields of a record and the elements of a list; nothing for any other value.\<close>

definition fields_of :: "json \<Rightarrow> pydict" where
  "fields_of v = (case v of JDict d \<Rightarrow> d | _ \<Rightarrow> [])"

definition items_of :: "json \<Rightarrow> json list" where
  "items_of v = (case v of JList xs \<Rightarrow> xs | _ \<Rightarrow> [])"

text \<open>
  The shape of an agent output, field by field: \<^verbatim>\<open>paper\<close>, \<^verbatim>\<open>equations\<close> and
  \<^verbatim>\<open>extraction_metadata\<close> are present, the records are records, \<^verbatim>\<open>equations\<close> is a list
  of records, and each declared field is absent, null or of its declared type. Fields
  that are not declared are free.
\<close>

definition is_record :: "json \<Rightarrow> bool" where
  "is_record v = (case v of JDict d \<Rightarrow> True | _ \<Rightarrow> False)"

definition is_optional_str :: "json \<Rightarrow> bool" where
  "is_optional_str v = (case v of JNull \<Rightarrow> True | JStr s \<Rightarrow> True | _ \<Rightarrow> False)"

definition is_optional_int_or_str :: "json \<Rightarrow> bool" where
  "is_optional_int_or_str v =
     (case v of JNull \<Rightarrow> True | JInt i \<Rightarrow> True | JStr s \<Rightarrow> True | _ \<Rightarrow> False)"

definition is_Paper :: "json \<Rightarrow> bool" where
  "is_Paper v =
     (case v of
        JDict d \<Rightarrow> is_optional_str (dict_get d ''doi'') \<and> is_optional_str (dict_get d ''title'')
          \<and> is_optional_int_or_str (dict_get d ''year'')
      | _ \<Rightarrow> False)"

definition is_Equation :: "json \<Rightarrow> bool" where
  "is_Equation v = (case v of JDict d \<Rightarrow> is_optional_str (dict_get d ''latex'') | _ \<Rightarrow> False)"

definition is_Metadata :: "json \<Rightarrow> bool" where
  "is_Metadata v =
     (case v of
        JDict d \<Rightarrow> is_optional_str (dict_get d ''task_id'') \<and> is_optional_str (dict_get d ''input_doi'')
          \<and> is_optional_str (dict_get d ''schema_name'')
          \<and> is_optional_str (dict_get d ''schema_version'')
      | _ \<Rightarrow> False)"

definition is_AgentOutput :: "json \<Rightarrow> bool" where
  "is_AgentOutput v =
     (case v of
        JDict d \<Rightarrow>
          (case map_of d ''paper'' of Some p \<Rightarrow> is_Paper p | None \<Rightarrow> False)
          \<and> (case map_of d ''equations'' of Some (JList es) \<Rightarrow> list_all is_Equation es | _ \<Rightarrow> False)
          \<and> (case map_of d ''extraction_metadata'' of Some m \<Rightarrow> is_Metadata m | None \<Rightarrow> False)
      | _ \<Rightarrow> False)"

definition is_list :: "json \<Rightarrow> bool" where
  "is_list v = (case v of JList xs \<Rightarrow> True | _ \<Rightarrow> False)"

text \<open>
  The field-level errors of a value, each at its path: the value or one of its parts is
  not a record (or not a list), a required field is missing, or a declared field holds a
  value of another type.
\<close>

inductive field_level_error :: "json \<Rightarrow> loc_item list \<Rightarrow> bool" where
  not_a_record: "\<not> is_record v \<Longrightarrow> field_level_error v []"
| missing_field:
    "k \<in> set ExtractionOutput_fields \<Longrightarrow> map_of d k = None \<Longrightarrow> field_level_error (JDict d) [Key k]"
| paper_not_a_record:
    "map_of d ''paper'' = Some p \<Longrightarrow> \<not> is_record p \<Longrightarrow> field_level_error (JDict d) [Key ''paper'']"
| paper_string_field:
    "map_of d ''paper'' = Some (JDict pd) \<Longrightarrow> k = ''doi'' \<or> k = ''title'' \<Longrightarrow>
     \<not> is_optional_str (dict_get pd k) \<Longrightarrow>
     field_level_error (JDict d) [Key ''paper'', Key k]"
| paper_year:
    "map_of d ''paper'' = Some (JDict pd) \<Longrightarrow> \<not> is_optional_int_or_str (dict_get pd ''year'') \<Longrightarrow>
     field_level_error (JDict d) [Key ''paper'', Key ''year'']"
| equations_not_a_list:
    "map_of d ''equations'' = Some e \<Longrightarrow> \<not> is_list e \<Longrightarrow>
     field_level_error (JDict d) [Key ''equations'']"
| equation_not_a_record:
    "map_of d ''equations'' = Some (JList es) \<Longrightarrow> i < length es \<Longrightarrow> \<not> is_record (es ! i) \<Longrightarrow>
     field_level_error (JDict d) [Key ''equations'', Pos i]"
| equation_latex:
    "map_of d ''equations'' = Some (JList es) \<Longrightarrow> i < length es \<Longrightarrow> es ! i = JDict ed \<Longrightarrow>
     \<not> is_optional_str (dict_get ed ''latex'') \<Longrightarrow>
     field_level_error (JDict d) [Key ''equations'', Pos i, Key ''latex'']"
| metadata_not_a_record:
    "map_of d ''extraction_metadata'' = Some m \<Longrightarrow> \<not> is_record m \<Longrightarrow>
     field_level_error (JDict d) [Key ''extraction_metadata'']"
| metadata_string_field:
    "map_of d ''extraction_metadata'' = Some (JDict md) \<Longrightarrow> k \<in> set ExtractionMetadata_fields \<Longrightarrow>
     \<not> is_optional_str (dict_get md k) \<Longrightarrow>
     field_level_error (JDict d) [Key ''extraction_metadata'', Key k]"

definition error_paths :: "'a validated \<Rightarrow> loc_item list set" where
  "error_paths r = field_path ` set (errors_of r)"

text \<open>An agent output with an undeclared field at each level, and its normalized value.\<close>

definition sample_output :: json where
  "sample_output =
     JDict [(''paper'', JDict [(''doi'', JStr ''10.1/x''), (''journal'', JStr ''JDS'')]),
            (''source'', JStr ''ocr''),
            (''equations'', JList [JDict [(''latex'', JStr ''y = ax''), (''units'', JStr ''kg'')]]),
            (''extraction_metadata'', JDict [(''run'', JInt 3)])]"

definition sample_normalized :: json where
  "sample_normalized =
     JDict [(''paper'',
             JDict [(''doi'', JStr ''10.1/x''), (''title'', JNull), (''year'', JNull),
                    (''journal'', JStr ''JDS'')]),
            (''equations'',
             JList [JDict [(''latex'', JStr ''y = ax''), (''model_performance'', JNull),
                           (''units'', JStr ''kg'')]]),
            (''extraction_metadata'',
             JDict [(''task_id'', JNull), (''input_doi'', JNull), (''schema_name'', JNull),
                    (''schema_version'', JNull), (''run'', JInt 3)]),
            (''source'', JStr ''ocr'')]"

text \<open>An agent function whose output has three field-level errors.\<close>

definition malformed_agent :: agent_fn where
  "malformed_agent text meta =
     Inr (JDict [(''paper'', JDict [(''doi'', JInt 5)]),
                 (''equations'', JList [JDict [(''latex'', JStr ''y = ax'')],
                                         JDict [(''latex'', JInt 7)]])])"

section \<open>Properties of the input extractor\<close>

subsection \<open>Whitespace\<close>

lemma dropWhile_rev_dropWhile_Nil:
  "dropWhile P (rev (dropWhile P s)) = [] \<longleftrightarrow> dropWhile P s = []"
proof
  assume a: "dropWhile P (rev (dropWhile P s)) = []"
  show "dropWhile P s = []"
  proof (rule ccontr)
    assume n: "dropWhile P s \<noteq> []"
    then have "\<not> P (hd (dropWhile P s))" by (rule hd_dropWhile)
    moreover have "hd (dropWhile P s) \<in> set (rev (dropWhile P s))"
      using n by simp
    moreover from a have "\<forall>x\<in>set (rev (dropWhile P s)). P x"
      by (simp only: dropWhile_eq_Nil_conv)
    ultimately show False by blast
  qed
next
  assume "dropWhile P s = []"
  then show "dropWhile P (rev (dropWhile P s)) = []"
    by (simp only: rev.simps dropWhile.simps)
qed

lemma strip_Nil_iff: "strip s = [] \<longleftrightarrow> list_all py_isspace s"
proof -
  have "strip s = [] \<longleftrightarrow> dropWhile py_isspace s = []"
    unfolding strip_def rev_is_Nil_conv by (rule dropWhile_rev_dropWhile_Nil)
  also have "\<dots> \<longleftrightarrow> list_all py_isspace s"
    by (simp only: dropWhile_eq_Nil_conv list_all_iff)
  finally show ?thesis .
qed

lemma strip_Nil [simp]: "strip [] = []"
  by (simp add: strip_def)

lemma nonblank_str_iff: "nonblank_str v = nonempty_string v"
  by (cases v) (simp_all add: nonempty_string_def strip_Nil_iff)

subsection \<open>The text\<close>

lemma scan_direct_find:
  "scan_direct p ks =
     (case find (\<lambda>k. nonblank_str (dict_get p k)) ks of
        None \<Rightarrow> None
      | Some k \<Rightarrow> string_value (dict_get p k))"
  by (induction ks) (auto simp: string_value_def split: json.splits)

lemma scan_direct_Some: "scan_direct p ks = Some t \<Longrightarrow> strip t \<noteq> []"
  by (induction ks) (auto split: json.splits if_splits)

lemma extract_text_cases:
  "fst (extract_input_from_jsonrpc (JDict p)) =
     (case dict_get p ''input'' of
        JDict inp \<Rightarrow>
          (case dict_get inp ''text'' of
             JStr t \<Rightarrow> if strip t \<noteq> [] then Some t else scan_direct p direct_fields
           | _ \<Rightarrow> scan_direct p direct_fields)
      | _ \<Rightarrow> scan_direct p direct_fields)"
  by (auto simp: extract_input_from_jsonrpc_def input_record_def Let_def dict_get_def
      dict_get_default_def split: json.splits option.splits)

lemma extract_text_non_dict:
  "fst (extract_input_from_jsonrpc params) = Some t \<Longrightarrow> \<exists>p. params = JDict p"
  by (cases params) (simp_all add: extract_input_from_jsonrpc_def)

lemma extract_text_nonblank:
  assumes "fst (extract_input_from_jsonrpc params) = Some t"
  shows "strip t \<noteq> []"
proof -
  from assms obtain p where p: "params = JDict p"
    by (blast dest: extract_text_non_dict)
  from assms show ?thesis
    unfolding p extract_text_cases
    by (auto split: json.splits if_splits dest: scan_direct_Some)
qed

lemma extract_text_nonempty:
  "fst (extract_input_from_jsonrpc params) = Some t \<Longrightarrow> t \<noteq> []"
  by (auto dest: extract_text_nonblank)

text \<open>
  Claim C4. When \<^verbatim>\<open>params\<close> is a record whose \<^verbatim>\<open>input\<close> is a record with a \<^verbatim>\<open>text\<close> that
  is a string with a non-whitespace character, the extractor returns exactly that
  string, whatever else \<^verbatim>\<open>params\<close> and \<^verbatim>\<open>input\<close> hold.
\<close>

theorem extract_returns_input_text:
  assumes "map_of params ''input'' = Some (JDict inp)"
    and "map_of inp ''text'' = Some (JStr t)"
    and "\<not> list_all py_isspace t"
  shows "fst (extract_input_from_jsonrpc (JDict params)) = Some t"
  using assms
  by (simp add: extract_text_cases dict_get_def dict_get_default_def strip_Nil_iff)

theorem extract_returns_input_text_witness:
  "fst (extract_input_from_jsonrpc
     (JDict [(''input_text'', JStr ''other''), (''task_id'', JInt 7),
             (''input'', JDict [(''chunk_id'', JInt 3), (''text'', JStr '' y = a + bx '')])]))
   = Some '' y = a + bx ''"
  using extract_returns_input_text
    [of "[(''input_text'', JStr ''other''), (''task_id'', JInt 7),
          (''input'', JDict [(''chunk_id'', JInt 3), (''text'', JStr '' y = a + bx '')])]"
        "[(''chunk_id'', JInt 3), (''text'', JStr '' y = a + bx '')]" "'' y = a + bx ''"]
  by (simp add: py_isspace_def)

text \<open>
  Claim C5. When \<^verbatim>\<open>params\<close> is a record and its \<^verbatim>\<open>input\<close> gives no text (it is not a
  record, or its \<^verbatim>\<open>text\<close> is not a string with a non-whitespace character), the extractor
  returns the value of the first of \<^verbatim>\<open>input_text\<close>, \<^verbatim>\<open>text\<close>, \<^verbatim>\<open>chunk_text\<close>, \<^verbatim>\<open>content\<close>,
  in this order, that is such a string, and no text when none is; so \<^verbatim>\<open>input_text\<close>,
  when it is such a string, is returned whatever the other three hold.
\<close>

theorem extract_scans_direct_fields_in_order:
  assumes "\<And>inp. dict_get params ''input'' = JDict inp \<Longrightarrow> \<not> nonempty_string (dict_get inp ''text'')"
  shows "fst (extract_input_from_jsonrpc (JDict params)) =
           (case find (\<lambda>k. nonempty_string (dict_get params k))
                   [''input_text'', ''text'', ''chunk_text'', ''content''] of
              None \<Rightarrow> None
            | Some k \<Rightarrow> string_value (dict_get params k))
         \<and> (nonempty_string (dict_get params ''input_text'') \<longrightarrow>
              fst (extract_input_from_jsonrpc (JDict params)) =
                string_value (dict_get params ''input_text''))"
proof -
  have "fst (extract_input_from_jsonrpc (JDict params)) = scan_direct params direct_fields"
    using assms unfolding extract_text_cases
    by (auto simp: nonblank_str_iff [symmetric] split: json.splits)
  then show ?thesis
    by (simp add: scan_direct_find direct_fields_def nonblank_str_iff)
qed

theorem extract_scans_direct_fields_in_order_witness:
  "fst (extract_input_from_jsonrpc
     (JDict [(''content'', JStr ''d''), (''chunk_text'', JStr ''c''), (''text'', JStr ''b''),
             (''input_text'', JStr ''  ''), (''input'', JDict [(''text'', JStr '' '')])]))
   = Some ''b''
   \<and> fst (extract_input_from_jsonrpc
     (JDict [(''content'', JStr ''d''), (''chunk_text'', JStr ''c''), (''text'', JStr ''b''),
             (''input_text'', JStr ''a''), (''input'', JInt 0)]))
   = Some ''a''"
proof -
  let ?p = "[(''content'', JStr ''d''), (''chunk_text'', JStr ''c''), (''text'', JStr ''b''),
             (''input_text'', JStr ''  ''), (''input'', JDict [(''text'', JStr '' '')])]"
  let ?q = "[(''content'', JStr ''d''), (''chunk_text'', JStr ''c''), (''text'', JStr ''b''),
             (''input_text'', JStr ''a''), (''input'', JInt 0)]"
  have p: "\<And>inp. dict_get ?p ''input'' = JDict inp \<Longrightarrow> \<not> nonempty_string (dict_get inp ''text'')"
    by (auto simp: dict_get_def dict_get_default_def nonempty_string_def py_isspace_def)
  have q: "\<And>inp. dict_get ?q ''input'' = JDict inp \<Longrightarrow> \<not> nonempty_string (dict_get inp ''text'')"
    by (simp add: dict_get_def dict_get_default_def)
  from extract_scans_direct_fields_in_order [of ?p, OF p]
    extract_scans_direct_fields_in_order [of ?q, OF q]
  show ?thesis
    by (simp add: dict_get_def dict_get_default_def nonempty_string_def py_isspace_def
        string_value_def)
qed

subsection \<open>The metadata\<close>

lemma keys_meta_task_id:
  "fst ` set meta \<subseteq> meta_keys \<Longrightarrow> fst ` set (meta_task_id p meta) \<subseteq> meta_keys"
  by (simp add: meta_task_id_def dom_update meta_keys_def)

lemma keys_meta_schema:
  "fst ` set meta \<subseteq> meta_keys \<Longrightarrow> fst ` set (meta_schema p meta) \<subseteq> meta_keys"
  by (simp add: meta_schema_def dom_update meta_keys_def split: option.split json.split)

lemma keys_meta_paper:
  "fst ` set meta \<subseteq> meta_keys \<Longrightarrow> fst ` set (meta_paper p meta) \<subseteq> meta_keys"
  by (simp add: meta_paper_def dom_update meta_keys_def split: json.split)

lemma keys_meta_input:
  "fst ` set meta \<subseteq> meta_keys \<Longrightarrow> fst ` set (meta_input inp meta) \<subseteq> meta_keys"
  by (simp add: meta_input_def dom_update meta_keys_def)

lemma snd_extract_cases:
  "snd (extract_input_from_jsonrpc (JDict p)) =
     (let meta = meta_paper p (meta_schema p (meta_task_id p [])) in
      case input_record p of None \<Rightarrow> meta | Some inp \<Rightarrow> meta_input inp meta)"
  by (simp add: extract_input_from_jsonrpc_def Let_def split: option.split json.split)

lemma keys_extract: "fst ` set (snd (extract_input_from_jsonrpc params)) \<subseteq> meta_keys"
proof (cases params)
  case (JDict p)
  have "fst ` set (meta_paper p (meta_schema p (meta_task_id p []))) \<subseteq> meta_keys"
    by (intro keys_meta_paper keys_meta_schema keys_meta_task_id) simp
  then show ?thesis
    unfolding JDict snd_extract_cases Let_def
    by (auto split: option.split dest: subsetD [OF keys_meta_input])
qed (simp_all add: extract_input_from_jsonrpc_def)

text \<open>
  Claim C10. Whatever value \<^verbatim>\<open>params\<close> is, every key of the metadata the extractor
  returns is one of \<^verbatim>\<open>task_id\<close>, \<^verbatim>\<open>schema_name\<close>, \<^verbatim>\<open>schema_version\<close>, \<^verbatim>\<open>input_doi\<close>,
  \<^verbatim>\<open>chunk_id\<close>, \<^verbatim>\<open>content_type\<close>.
\<close>

theorem meta_keys_fixed:
  "fst ` set (snd (extract_input_from_jsonrpc params))
     \<subseteq> {''task_id'', ''schema_name'', ''schema_version'', ''input_doi'', ''chunk_id'',
         ''content_type''}"
  using keys_extract [of params] unfolding meta_keys_def .

theorem meta_keys_fixed_witness:
  "fst ` set (snd (extract_input_from_jsonrpc
      (JDict [(''task_id'', JStr ''t1''), (''other'', JInt 1), (''paper'', JDict [(''doi'', JStr ''10.1/x'')]),
              (''input'', JDict [(''text'', JStr ''abc''), (''page'', JInt 2)])])))
     \<subseteq> {''task_id'', ''schema_name'', ''schema_version'', ''input_doi'', ''chunk_id'',
         ''content_type''}"
  by (rule meta_keys_fixed)



lemma map_of_meta_task_id:
  "map_of (meta_task_id p meta) k =
     (if k = ''task_id'' \<and> map_of p ''task_id'' \<noteq> None then map_of p ''task_id'' else map_of meta k)"
  by (auto simp: meta_task_id_def update_conv' dict_contains_def dict_get_def dict_get_default_def)

lemma map_of_meta_schema:
  "map_of (meta_schema p meta) k =
     (case map_of p ''schema'' of
        Some (JDict s) \<Rightarrow>
          if k = ''schema_version'' then Some (dict_get s ''version'')
          else if k = ''schema_name'' then Some (dict_get s ''name'')
          else map_of meta k
      | _ \<Rightarrow> map_of meta k)"
  by (simp add: meta_schema_def update_conv' split: option.split json.split)

lemma map_of_meta_paper:
  "map_of (meta_paper p meta) k =
     (case dict_get p ''paper'' of
        JDict pp \<Rightarrow>
          if k = ''input_doi'' then Some (py_or (dict_get pp ''doi'') (dict_get meta ''input_doi''))
          else map_of meta k
      | _ \<Rightarrow> map_of meta k)"
  by (simp add: meta_paper_def update_conv' split: json.split)

lemma map_of_meta_input:
  "map_of (meta_input inp meta) k =
     (if k = ''content_type'' then Some (dict_get inp ''content_type'')
      else if k = ''chunk_id'' then Some (dict_get inp ''chunk_id'')
      else map_of meta k)"
  by (simp add: meta_input_def update_conv')

lemma no_input_doi_before_paper:
  "dict_get (meta_schema p (meta_task_id p [])) ''input_doi'' = JNull"
  by (simp add: dict_get_def dict_get_default_def map_of_meta_schema map_of_meta_task_id
      split: option.split json.split)

lemma map_of_extract_meta:
  "map_of (snd (extract_input_from_jsonrpc (JDict p))) k =
     (case input_record p of
        Some inp \<Rightarrow> map_of (meta_input inp (meta_paper p (meta_schema p (meta_task_id p [])))) k
      | None \<Rightarrow> map_of (meta_paper p (meta_schema p (meta_task_id p []))) k)"
  by (simp add: snd_extract_cases Let_def split: option.split)

lemma meta_has_task_id:
  "map_of (snd (extract_input_from_jsonrpc (JDict p))) ''task_id'' = map_of p ''task_id''"
  by (simp add: map_of_extract_meta map_of_meta_input map_of_meta_paper map_of_meta_schema
      map_of_meta_task_id split: option.split json.split)

lemma meta_has_schema_name:
  "map_of (snd (extract_input_from_jsonrpc (JDict p))) ''schema_name'' =
     (case map_of p ''schema'' of Some (JDict s) \<Rightarrow> Some (dict_get s ''name'') | _ \<Rightarrow> None)"
  by (simp add: map_of_extract_meta map_of_meta_input map_of_meta_paper map_of_meta_schema
      map_of_meta_task_id split: option.split json.split)

lemma meta_has_schema_version:
  "map_of (snd (extract_input_from_jsonrpc (JDict p))) ''schema_version'' =
     (case map_of p ''schema'' of Some (JDict s) \<Rightarrow> Some (dict_get s ''version'') | _ \<Rightarrow> None)"
  by (simp add: map_of_extract_meta map_of_meta_input map_of_meta_paper map_of_meta_schema
      map_of_meta_task_id split: option.split json.split)

lemma meta_has_input_doi:
  "map_of (snd (extract_input_from_jsonrpc (JDict p))) ''input_doi'' =
     (case dict_get p ''paper'' of
        JDict pp \<Rightarrow> Some (if truthy (dict_get pp ''doi'') then dict_get pp ''doi'' else JNull)
      | _ \<Rightarrow> None)"
  by (simp add: map_of_extract_meta map_of_meta_input map_of_meta_paper map_of_meta_schema
      map_of_meta_task_id no_input_doi_before_paper py_or_def split: option.split json.split)

lemma meta_has_chunk_id:
  "map_of (snd (extract_input_from_jsonrpc (JDict p))) ''chunk_id'' =
     (case input_record p of Some inp \<Rightarrow> Some (dict_get inp ''chunk_id'') | None \<Rightarrow> None)"
  by (simp add: map_of_extract_meta map_of_meta_input map_of_meta_paper map_of_meta_schema
      map_of_meta_task_id split: option.split json.split)

lemma meta_has_content_type:
  "map_of (snd (extract_input_from_jsonrpc (JDict p))) ''content_type'' =
     (case input_record p of Some inp \<Rightarrow> Some (dict_get inp ''content_type'') | None \<Rightarrow> None)"
  by (simp add: map_of_extract_meta map_of_meta_input map_of_meta_paper map_of_meta_schema
      map_of_meta_task_id split: option.split json.split)

text \<open>
  Claim C2 says that a key is in the metadata only when its source field is present,
  never with a null value. On this input \<^verbatim>\<open>schema\<close> has no \<^verbatim>\<open>name\<close> and \<^verbatim>\<open>input\<close> has
  neither \<^verbatim>\<open>chunk_id\<close> nor \<^verbatim>\<open>content_type\<close>, and the metadata holds all three keys with
  null.
\<close>

theorem meta_null_for_absent_field:
  "snd (extract_input_from_jsonrpc
     (JDict [(''schema'', JDict [(''version'', JStr ''1'')]),
             (''input'', JDict [(''text'', JStr ''x'')])]))
   = [(''schema_name'', JNull), (''schema_version'', JStr ''1''),
      (''chunk_id'', JNull), (''content_type'', JNull)]"
  by (simp add: extract_input_from_jsonrpc_def meta_paper_def meta_schema_def meta_task_id_def
      meta_input_def input_record_def dict_contains_def dict_get_def dict_get_default_def
      strip_def py_isspace_def)

text \<open>
  Claim C2, as the code has it. \<^verbatim>\<open>task_id\<close> is in the metadata exactly when \<^verbatim>\<open>params\<close>
  has it, with its value. The other keys follow the enclosing record: \<^verbatim>\<open>schema_name\<close>
  and \<^verbatim>\<open>schema_version\<close> are both set exactly when \<^verbatim>\<open>schema\<close> is a record, \<^verbatim>\<open>input_doi\<close>
  exactly when \<^verbatim>\<open>paper\<close> is a record, \<^verbatim>\<open>chunk_id\<close> and \<^verbatim>\<open>content_type\<close> exactly when
  \<^verbatim>\<open>input\<close> is a non-empty record; each holds the field of that record, or null when the
  record lacks it (\<^verbatim>\<open>input_doi\<close> is null also when \<^verbatim>\<open>doi\<close> is falsy).
\<close>

theorem meta_key_presence:
  "map_of (snd (extract_input_from_jsonrpc (JDict p))) ''task_id'' = map_of p ''task_id''
   \<and> map_of (snd (extract_input_from_jsonrpc (JDict p))) ''schema_name'' =
       (case map_of p ''schema'' of Some (JDict s) \<Rightarrow> Some (dict_get s ''name'') | _ \<Rightarrow> None)
   \<and> map_of (snd (extract_input_from_jsonrpc (JDict p))) ''schema_version'' =
       (case map_of p ''schema'' of Some (JDict s) \<Rightarrow> Some (dict_get s ''version'') | _ \<Rightarrow> None)
   \<and> map_of (snd (extract_input_from_jsonrpc (JDict p))) ''input_doi'' =
       (case dict_get p ''paper'' of
          JDict pp \<Rightarrow> Some (if truthy (dict_get pp ''doi'') then dict_get pp ''doi'' else JNull)
        | _ \<Rightarrow> None)
   \<and> map_of (snd (extract_input_from_jsonrpc (JDict p))) ''chunk_id'' =
       (case input_record p of Some inp \<Rightarrow> Some (dict_get inp ''chunk_id'') | None \<Rightarrow> None)
   \<and> map_of (snd (extract_input_from_jsonrpc (JDict p))) ''content_type'' =
       (case input_record p of Some inp \<Rightarrow> Some (dict_get inp ''content_type'') | None \<Rightarrow> None)"
  by (simp only: meta_has_task_id meta_has_schema_name meta_has_schema_version
      meta_has_input_doi meta_has_chunk_id meta_has_content_type simp_thms)

theorem meta_key_presence_witness:
  "map_of (snd (extract_input_from_jsonrpc
      (JDict [(''schema'', JDict [(''name'', JStr ''dairy'')]), (''paper'', JDict []),
              (''input'', JStr ''x'')]))) ''task_id'' = None
   \<and> map_of (snd (extract_input_from_jsonrpc
      (JDict [(''schema'', JDict [(''name'', JStr ''dairy'')]), (''paper'', JDict []),
              (''input'', JStr ''x'')]))) ''schema_name'' = Some (JStr ''dairy'')
   \<and> map_of (snd (extract_input_from_jsonrpc
      (JDict [(''schema'', JDict [(''name'', JStr ''dairy'')]), (''paper'', JDict []),
              (''input'', JStr ''x'')]))) ''schema_version'' = Some JNull
   \<and> map_of (snd (extract_input_from_jsonrpc
      (JDict [(''schema'', JDict [(''name'', JStr ''dairy'')]), (''paper'', JDict []),
              (''input'', JStr ''x'')]))) ''input_doi'' = Some JNull
   \<and> map_of (snd (extract_input_from_jsonrpc
      (JDict [(''schema'', JDict [(''name'', JStr ''dairy'')]), (''paper'', JDict []),
              (''input'', JStr ''x'')]))) ''chunk_id'' = None
   \<and> map_of (snd (extract_input_from_jsonrpc
      (JDict [(''schema'', JDict [(''name'', JStr ''dairy'')]), (''paper'', JDict []),
              (''input'', JStr ''x'')]))) ''content_type'' = None"
  using meta_key_presence
    [of "[(''schema'', JDict [(''name'', JStr ''dairy'')]), (''paper'', JDict []),
          (''input'', JStr ''x'')]"]
  by (simp add: dict_get_def dict_get_default_def input_record_def)

section \<open>Properties of the handler\<close>

lemma handle_notification:
  assumes "map_of b ''id'' = None \<or> map_of b ''id'' = Some JNull"
  shows "handle_single_jsonrpc (JDict b) agent = ([], Inr None)"
  using assms by (auto simp: handle_single_jsonrpc_def dict_get_default_def Let_def)

text \<open>
  Claim C6. A request object whose \<^verbatim>\<open>id\<close> is absent or null is a notification: the
  handler takes no step (no extraction, no call of the agent function, no validation)
  and returns nothing, whatever \<^verbatim>\<open>params\<close> holds and whatever the agent function would
  do; in a batch the loop goes on with \<open>responses\<close> unchanged.
\<close>

theorem notification_is_skipped:
  assumes "map_of b ''id'' = None \<or> map_of b ''id'' = Some JNull"
  shows "handle_single_jsonrpc (JDict b) agent = ([], Inr None)
       \<and> jsonrpc_root (JDict b) agent = ([], Inr None)
       \<and> batch_loop (JDict b # rest) agent responses steps = batch_loop rest agent responses steps"
  using handle_notification [OF assms, of agent]
  by (simp add: jsonrpc_root_def)

theorem notification_is_skipped_witness:
  "handle_single_jsonrpc (JDict [(''id'', JNull), (''method'', JStr ''extract''), (''params'', JDict [])])
      (Some raising_agent) = ([], Inr None)
   \<and> jsonrpc_root (JList [JDict [(''method'', JStr ''extract''), (''params'', JInt 3)]])
      (Some raising_agent) = ([], Inr (Some (JList [])))"
  using notification_is_skipped
      [of "[(''id'', JNull), (''method'', JStr ''extract''), (''params'', JDict [])]"
          "Some raising_agent" "[]" "[]" "[]"]
    notification_is_skipped
      [of "[(''method'', JStr ''extract''), (''params'', JInt 3)]" "Some raising_agent" "[]" "[]" "[]"]
  by (simp add: jsonrpc_root_def)

lemma handle_with_text:
  assumes "dict_get_default b ''id'' JNull = rpc_id" and "rpc_id \<noteq> JNull"
    and "dict_get_default b ''params'' (JDict []) = params"
    and "extract_input_from_jsonrpc params = (Some t, meta)"
  shows "handle_single_jsonrpc (JDict b) agent =
     (case call_agent agent t meta of
        Inl e \<Rightarrow> ([Extraction params, AgentCall t meta], Inl e)
      | Inr output_dict \<Rightarrow>
          ([Extraction params, AgentCall t meta, Validation output_dict],
           (case model_validate output_dict of
              Inl errors \<Rightarrow>
                Inr (Some (jsonrpc_error rpc_id (- 32000) schema_mismatch_message
                   (JDict [(''validation_errors'', JList (map FieldError_json errors))])))
            | Inr validated \<Rightarrow>
                Inr (Some (jsonrpc_success rpc_id (model_dump validated))))))"
proof -
  from assms(4) have "fst (extract_input_from_jsonrpc params) = Some t"
    by simp
  then have "t \<noteq> []"
    by (rule extract_text_nonempty)
  with assms show ?thesis
    by (simp add: handle_single_jsonrpc_def Let_def)
qed

text \<open>
  Claim C1, as the code has it. The call of the agent function is outside the handler's
  \<^verbatim>\<open>try\<close>: for a request with an \<^verbatim>\<open>id\<close> whose \<^verbatim>\<open>params\<close> yield a text, an exception the
  agent function raises on \<open>(text, meta)\<close> leaves the handler, and \<^verbatim>\<open>jsonrpc_root\<close> with
  it; no response is built and no validation takes place.
\<close>

theorem agent_exception_leaves_handler:
  assumes "dict_get_default b ''id'' JNull \<noteq> JNull"
    and "extract_input_from_jsonrpc (dict_get_default b ''params'' (JDict [])) = (Some t, meta)"
    and "agent t meta = Inl e"
  shows "handle_single_jsonrpc (JDict b) (Some agent) =
           ([Extraction (dict_get_default b ''params'' (JDict [])), AgentCall t meta], Inl e)
       \<and> jsonrpc_root (JDict b) (Some agent) =
           ([Extraction (dict_get_default b ''params'' (JDict [])), AgentCall t meta], Inl e)"
  using assms(3) handle_with_text [OF refl assms(1) refl assms(2), of "Some agent"]
  by (simp add: call_agent_def jsonrpc_root_def)

lemma extract_input_text_only:
  "\<not> list_all py_isspace t \<Longrightarrow>
   extract_input_from_jsonrpc (JDict [(''input_text'', JStr t)]) = (Some t, [])"
  by (simp add: extract_input_from_jsonrpc_def meta_paper_def meta_schema_def meta_task_id_def
      input_record_def dict_contains_def dict_get_def dict_get_default_def direct_fields_def
      strip_Nil_iff)

text \<open>
  Claim C1 says that an exception of the agent function is turned into a JSON-RPC error
  response. On this request the handler returns no response: the exception is its
  outcome.
\<close>

theorem agent_exception_not_converted:
  "snd (handle_single_jsonrpc (text_request 1 ''y = a + bx'') (Some raising_agent))
     = Inl (AgentRaised ''extractor crashed'')"
  by (simp add: handle_single_jsonrpc_def text_request_def dict_get_default_def
      extract_input_text_only py_isspace_def call_agent_def raising_agent_def)

theorem agent_exception_leaves_handler_witness:
  "handle_single_jsonrpc (text_request 1 ''y = a + bx'') (Some raising_agent) =
     ([Extraction (JDict [(''input_text'', JStr ''y = a + bx'')]), AgentCall ''y = a + bx'' []],
      Inl (AgentRaised ''extractor crashed''))"
proof -
  let ?b = "[(''jsonrpc'', JStr ''2.0''), (''id'', JInt 1), (''method'', JStr ''extract''),
            (''params'', JDict [(''input_text'', JStr ''y = a + bx'')])]"
  have 1: "dict_get_default ?b ''id'' JNull \<noteq> JNull"
    by (simp add: dict_get_default_def)
  have 2: "extract_input_from_jsonrpc (dict_get_default ?b ''params'' (JDict [])) = (Some ''y = a + bx'', [])"
    by (simp add: dict_get_default_def extract_input_text_only py_isspace_def)
  have 3: "raising_agent ''y = a + bx'' [] = Inl (AgentRaised ''extractor crashed'')"
    by (simp add: raising_agent_def)
  from agent_exception_leaves_handler [of ?b "''y = a + bx''" "[]" raising_agent, OF 1 2 3] show ?thesis
    by (simp add: text_request_def dict_get_default_def)
qed


lemma returns_cases:
  "returns r \<longleftrightarrow> (\<exists>st v. r = (st, Inr v))"
  by (cases r) (auto simp: returns_def split: sum.splits)

lemma batch_loop_returns:
  assumes "\<forall>item\<in>set items. returns (handle_single_jsonrpc item agent)"
  shows "snd (batch_loop items agent responses steps) =
           Inr (responses @ List.map_filter (\<lambda>item. response_of (handle_single_jsonrpc item agent)) items)"
  using assms
proof (induction items arbitrary: responses steps)
  case Nil
  then show ?case by (simp add: List.map_filter_simps)
next
  case (Cons item items)
  from Cons.prems obtain st v where h: "handle_single_jsonrpc item agent = (st, Inr v)"
    by (auto simp: returns_cases)
  from Cons.prems have rest: "\<forall>item\<in>set items. returns (handle_single_jsonrpc item agent)"
    by simp
  show ?case
  proof (cases v)
    case None
    with h Cons.IH [OF rest] show ?thesis
      by (simp add: List.map_filter_simps response_of_def)
  next
    case (Some resp)
    with h Cons.IH [OF rest] show ?thesis
      by (simp add: List.map_filter_simps response_of_def)
  qed
qed

lemma batch_loop_raises:
  assumes "\<forall>item\<in>set before. returns (handle_single_jsonrpc item agent)"
    and "snd (handle_single_jsonrpc item agent) = Inl e"
  shows "snd (batch_loop (before @ item # rest) agent responses steps) = Inl e"
  using assms(1)
proof (induction before arbitrary: responses steps)
  case Nil
  from assms(2) obtain st where "handle_single_jsonrpc item agent = (st, Inl e)"
    by (cases "handle_single_jsonrpc item agent") auto
  then show ?case by simp
next
  case (Cons x before)
  from Cons.prems obtain st v where h: "handle_single_jsonrpc x agent = (st, Inr v)"
    by (auto simp: returns_cases)
  from Cons.prems have "\<forall>item\<in>set before. returns (handle_single_jsonrpc item agent)"
    by simp
  with h Cons.IH show ?case
    by (cases v) simp_all
qed

lemma batch_stops_at_exception:
  assumes "\<forall>item\<in>set before. returns (handle_single_jsonrpc item agent)"
    and "snd (handle_single_jsonrpc item agent) = Inl e"
  shows "snd (jsonrpc_root (JList (before @ item # rest)) agent) = Inl e"
  using batch_loop_raises [OF assms, of rest "[]" "[]"]
  by (cases "batch_loop (before @ item # rest) agent [] []")
     (auto simp: jsonrpc_root_def split: sum.splits)

text \<open>
  Claim C7, as the code has it. When the handling of no element of a batch raises, the
  responses of the elements that have one are collected in input order; so for a batch
  of a request, a notification and a request the result is the array of the two
  responses, in the order of the two requests. (When the handling of an element raises,
  \<open>batch_stops_at_exception\<close> applies.)
\<close>

theorem batch_collects_results_in_order:
  assumes "\<forall>item\<in>set items. returns (handle_single_jsonrpc item agent)"
  shows "snd (jsonrpc_root (JList items) agent) =
           Inr (Some (JList (List.map_filter
                  (\<lambda>item. response_of (handle_single_jsonrpc item agent)) items)))
       \<and> (\<forall>a n c ra rc.
             items = [a, n, c] \<and> response_of (handle_single_jsonrpc a agent) = Some ra
               \<and> response_of (handle_single_jsonrpc n agent) = None
               \<and> response_of (handle_single_jsonrpc c agent) = Some rc
             \<longrightarrow> snd (jsonrpc_root (JList items) agent) = Inr (Some (JList [ra, rc])))"
proof -
  have "snd (jsonrpc_root (JList items) agent) =
           Inr (Some (JList (List.map_filter
                  (\<lambda>item. response_of (handle_single_jsonrpc item agent)) items)))"
    using batch_loop_returns [OF assms, of "[]" "[]"]
    by (cases "batch_loop items agent [] []") (auto simp: jsonrpc_root_def split: sum.splits)
  then show ?thesis
    by (auto simp: List.map_filter_simps)
qed

lemma handle_missing_text:
  "handle_single_jsonrpc (JDict [(''id'', JInt i)]) agent =
     ([Extraction (JDict [])],
      Inr (Some (jsonrpc_error (JInt i) (- 32602) missing_text_message
                  (JDict [(''method'', JStr [])]))))"
  by (simp add: handle_single_jsonrpc_def dict_get_default_def extract_input_from_jsonrpc_def
      meta_paper_def meta_schema_def meta_task_id_def input_record_def dict_contains_def
      dict_get_def direct_fields_def)

lemma handle_text_notification:
  "handle_single_jsonrpc (text_notification t) agent = ([], Inr None)"
  by (simp add: handle_single_jsonrpc_def text_notification_def dict_get_default_def)

lemma handle_text_request:
  assumes "\<not> list_all py_isspace t"
  shows "handle_single_jsonrpc (text_request i t) agent =
     (case call_agent agent t [] of
        Inl e \<Rightarrow> ([Extraction (JDict [(''input_text'', JStr t)]), AgentCall t []], Inl e)
      | Inr output_dict \<Rightarrow>
          ([Extraction (JDict [(''input_text'', JStr t)]), AgentCall t [], Validation output_dict],
           (case model_validate output_dict of
              Inl errors \<Rightarrow>
                Inr (Some (jsonrpc_error (JInt i) (- 32000) schema_mismatch_message
                   (JDict [(''validation_errors'', JList (map FieldError_json errors))])))
            | Inr validated \<Rightarrow> Inr (Some (jsonrpc_success (JInt i) (model_dump validated))))))"
proof -
  let ?b = "[(''jsonrpc'', JStr ''2.0''), (''id'', JInt i), (''method'', JStr ''extract''),
            (''params'', JDict [(''input_text'', JStr t)])]"
  have 1: "dict_get_default ?b ''id'' JNull = JInt i"
    by (simp add: dict_get_default_def)
  have 2: "dict_get_default ?b ''params'' (JDict []) = JDict [(''input_text'', JStr t)]"
    by (simp add: dict_get_default_def)
  have 3: "extract_input_from_jsonrpc (JDict [(''input_text'', JStr t)]) = (Some t, [])"
    using assms by (rule extract_input_text_only)
  from handle_with_text [OF 1 _ 2 3, of agent] show ?thesis
    by (simp add: text_request_def)
qed

lemma model_validate_stub_no_meta:
  "model_validate (run_agent_stub t []) =
     Inr \<lparr>paper = \<lparr>doi = None, title = None, year = None, paper_extra = []\<rparr>,
          equations = [\<lparr>latex = None, model_performance = JNull,
             equation_extra = [(''notes'', JStr ''STUB: replace run_agent_fn with your extractor; latex/performance are required fields.'')]\<rparr>],
          extraction_metadata = \<lparr>task_id = None, input_doi = None, schema_name = None,
             schema_version = None, metadata_extra = []\<rparr>,
          output_extra = []\<rparr>"
  by (simp add: run_agent_stub_def model_validate_def required_field_def validate_Paper_def
      validate_Equation_list_def validate_Equation_def validate_ExtractionMetadata_def
      dict_get_def dict_get_default_def extra_fields_def Paper_fields_def Equation_fields_def
      ExtractionMetadata_fields_def ExtractionOutput_fields_def)

text \<open>
  Claim C7 says that every batch yields the array of its non-null results. In this batch
  of a request, a notification and a request the agent function raises on the second
  request: \<^verbatim>\<open>jsonrpc_root\<close> returns no array, and the response of the first request is
  lost.
\<close>

theorem batch_lost_on_exception:
  "snd (jsonrpc_root
      (JList [text_request 1 ''good'', text_notification ''note'', text_request 2 ''bad''])
      (Some fussy_agent))
   = Inl (AgentRaised ''extractor crashed'')"
  by (simp add: jsonrpc_root_def handle_text_request handle_text_notification py_isspace_def
      call_agent_def fussy_agent_def model_validate_stub_no_meta)

theorem batch_collects_results_in_order_witness:
  "snd (jsonrpc_root
      (JList [JDict [(''id'', JInt 1)], text_notification ''note'', JDict [(''id'', JInt 2)]])
      (Some raising_agent))
   = Inr (Some (JList
       [jsonrpc_error (JInt 1) (- 32602) missing_text_message (JDict [(''method'', JStr [])]),
        jsonrpc_error (JInt 2) (- 32602) missing_text_message (JDict [(''method'', JStr [])])]))"
proof -
  let ?items = "[JDict [(''id'', JInt 1)], text_notification ''note'', JDict [(''id'', JInt 2)]]"
  have "\<forall>item\<in>set ?items. returns (handle_single_jsonrpc item (Some raising_agent))"
    by (simp add: returns_def handle_missing_text handle_text_notification)
  from batch_collects_results_in_order [OF this] show ?thesis
    by (simp add: List.map_filter_simps response_of_def handle_missing_text
        handle_text_notification)
qed

section \<open>Properties of the schema validator\<close>

subsection \<open>Acceptance and undeclared fields\<close>

lemma map_of_extra_fields:
  "k \<notin> set declared \<Longrightarrow> map_of (extra_fields declared d) k = map_of d k"
  by (induction d) (auto simp: extra_fields_def)

lemma map_of_extra_fields_declared:
  "k \<in> set declared \<Longrightarrow> map_of (extra_fields declared d) k = None"
  by (induction d) (auto simp: extra_fields_def)

lemma extra_fields_idem:
  "extra_fields declared (extra_fields declared d) = extra_fields declared d"
  by (simp add: extra_fields_def)

lemma validate_optional_str_ok:
  "is_optional_str v \<Longrightarrow> \<exists>a. validate_optional_str loc v = Inr a"
  by (cases v) (simp_all add: is_optional_str_def)

lemma validate_optional_int_or_str_ok:
  "is_optional_int_or_str v \<Longrightarrow> \<exists>a. validate_optional_int_or_str loc v = Inr a"
  by (cases v) (simp_all add: is_optional_int_or_str_def)

lemma validate_Paper_ok:
  assumes "is_Paper v"
  shows "\<exists>p. validate_Paper loc v = Inr p \<and> paper_extra p = extra_fields Paper_fields (fields_of v)"
proof -
  from assms obtain d where d: "v = JDict d"
    by (cases v) (simp_all add: is_Paper_def)
  from assms d obtain a b c where
    "validate_optional_str (loc @ [Key ''doi'']) (dict_get d ''doi'') = Inr a"
    "validate_optional_str (loc @ [Key ''title'']) (dict_get d ''title'') = Inr b"
    "validate_optional_int_or_str (loc @ [Key ''year'']) (dict_get d ''year'') = Inr c"
    using validate_optional_str_ok validate_optional_int_or_str_ok
    by (fastforce simp: is_Paper_def)
  then show ?thesis
    by (simp add: d validate_Paper_def fields_of_def)
qed

lemma validate_Equation_ok:
  assumes "is_Equation v"
  shows "\<exists>e. validate_Equation loc v = Inr e
           \<and> equation_extra e = extra_fields Equation_fields (fields_of v)"
proof -
  from assms obtain d where d: "v = JDict d"
    by (cases v) (simp_all add: is_Equation_def)
  from assms d obtain a where
    "validate_optional_str (loc @ [Key ''latex'']) (dict_get d ''latex'') = Inr a"
    using validate_optional_str_ok by (fastforce simp: is_Equation_def)
  then show ?thesis
    by (simp add: d validate_Equation_def fields_of_def)
qed

lemma validate_Metadata_ok:
  assumes "is_Metadata v"
  shows "\<exists>m. validate_ExtractionMetadata loc v = Inr m
           \<and> metadata_extra m = extra_fields ExtractionMetadata_fields (fields_of v)"
proof -
  from assms obtain d where d: "v = JDict d"
    by (cases v) (simp_all add: is_Metadata_def)
  from assms d obtain a b c e where
    "validate_optional_str (loc @ [Key ''task_id'']) (dict_get d ''task_id'') = Inr a"
    "validate_optional_str (loc @ [Key ''input_doi'']) (dict_get d ''input_doi'') = Inr b"
    "validate_optional_str (loc @ [Key ''schema_name'']) (dict_get d ''schema_name'') = Inr c"
    "validate_optional_str (loc @ [Key ''schema_version'']) (dict_get d ''schema_version'') = Inr e"
    using validate_optional_str_ok by (fastforce simp: is_Metadata_def)
  then show ?thesis
    by (simp add: d validate_ExtractionMetadata_def fields_of_def)
qed

lemma validate_items_ok:
  assumes "list_all is_Equation vs"
  shows "\<exists>es. validate_items loc i vs = Inr es
           \<and> map equation_extra es = map (\<lambda>v. extra_fields Equation_fields (fields_of v)) vs"
  using assms
proof (induction vs arbitrary: i)
  case Nil
  then show ?case by simp
next
  case (Cons v vs)
  from Cons.prems obtain e where
    e: "validate_Equation (loc @ [Pos i]) v = Inr e"
       "equation_extra e = extra_fields Equation_fields (fields_of v)"
    using validate_Equation_ok by fastforce
  from Cons.prems Cons.IH [of "Suc i"] obtain es where
    es: "validate_items loc (Suc i) vs = Inr es"
        "map equation_extra es = map (\<lambda>v. extra_fields Equation_fields (fields_of v)) vs"
    by auto
  from e es show ?case by simp
qed


lemma is_AgentOutput_cases:
  assumes "is_AgentOutput v"
  obtains d p es m where "v = JDict d" "map_of d ''paper'' = Some p" "is_Paper p"
    "map_of d ''equations'' = Some (JList es)" "list_all is_Equation es"
    "map_of d ''extraction_metadata'' = Some m" "is_Metadata m"
proof -
  from assms obtain d where d: "v = JDict d"
    by (cases v) (simp_all add: is_AgentOutput_def)
  from assms d obtain p where p: "map_of d ''paper'' = Some p" "is_Paper p"
    by (cases "map_of d ''paper''") (simp_all add: is_AgentOutput_def)
  from assms d obtain m where m: "map_of d ''extraction_metadata'' = Some m" "is_Metadata m"
    by (cases "map_of d ''extraction_metadata''") (simp_all add: is_AgentOutput_def)
  from assms d obtain e where e: "map_of d ''equations'' = Some e"
    by (cases "map_of d ''equations''") (simp_all add: is_AgentOutput_def)
  from assms d e obtain es where es: "e = JList es" "list_all is_Equation es"
    by (cases e) (simp_all add: is_AgentOutput_def)
  from d p m e es that show thesis by blast
qed

lemma model_validate_ok:
  assumes "map_of d ''paper'' = Some p" "is_Paper p"
    "map_of d ''equations'' = Some (JList es)" "list_all is_Equation es"
    "map_of d ''extraction_metadata'' = Some m" "is_Metadata m"
  shows "\<exists>out. model_validate (JDict d) = Inr out
           \<and> output_extra out = extra_fields ExtractionOutput_fields d
           \<and> paper_extra (paper out) = extra_fields Paper_fields (fields_of p)
           \<and> map equation_extra (equations out) =
               map (\<lambda>v. extra_fields Equation_fields (fields_of v)) es
           \<and> metadata_extra (extraction_metadata out) =
               extra_fields ExtractionMetadata_fields (fields_of m)"
proof -
  from assms(2) obtain P where
    P: "validate_Paper [Key ''paper''] p = Inr P"
       "paper_extra P = extra_fields Paper_fields (fields_of p)"
    using validate_Paper_ok by blast
  from assms(4) obtain ES where
    ES: "validate_items [Key ''equations''] 0 es = Inr ES"
        "map equation_extra ES = map (\<lambda>v. extra_fields Equation_fields (fields_of v)) es"
    using validate_items_ok by blast
  from assms(6) obtain M where
    M: "validate_ExtractionMetadata [Key ''extraction_metadata''] m = Inr M"
       "metadata_extra M = extra_fields ExtractionMetadata_fields (fields_of m)"
    using validate_Metadata_ok by blast
  from assms(1,3,5) P ES M show ?thesis
    by (simp add: model_validate_def required_field_def validate_Equation_list_def)
qed

lemma fields_of_dump_Paper:
  "k \<notin> set Paper_fields \<Longrightarrow> map_of (fields_of (dump_Paper P)) k = map_of (paper_extra P) k"
  by (simp add: dump_Paper_def fields_of_def Paper_fields_def)

lemma fields_of_dump_Equation:
  "k \<notin> set Equation_fields \<Longrightarrow>
     map_of (fields_of (dump_Equation E)) k = map_of (equation_extra E) k"
  by (simp add: dump_Equation_def fields_of_def Equation_fields_def)

lemma fields_of_dump_Metadata:
  "k \<notin> set ExtractionMetadata_fields \<Longrightarrow>
     map_of (fields_of (dump_ExtractionMetadata M)) k = map_of (metadata_extra M) k"
  by (simp add: dump_ExtractionMetadata_def fields_of_def ExtractionMetadata_fields_def)

lemma fields_of_model_dump:
  "k \<notin> set ExtractionOutput_fields \<Longrightarrow>
     map_of (fields_of (model_dump out)) k = map_of (output_extra out) k"
  by (simp add: model_dump_def fields_of_def ExtractionOutput_fields_def)

lemma model_dump_parts:
  "dict_get (fields_of (model_dump out)) ''paper'' = dump_Paper (paper out)"
  "dict_get (fields_of (model_dump out)) ''equations'' = JList (map dump_Equation (equations out))"
  "dict_get (fields_of (model_dump out)) ''extraction_metadata'' =
     dump_ExtractionMetadata (extraction_metadata out)"
  by (simp_all add: model_dump_def fields_of_def dict_get_def dict_get_default_def)

text \<open>
  Claim C3. A value of the agent-output shape is accepted by the schema validator, and
  the normalized value holds every undeclared field of the value with its value
  unchanged: at the top level, in \<^verbatim>\<open>paper\<close>, in \<^verbatim>\<open>extraction_metadata\<close>, and in each element
  of \<^verbatim>\<open>equations\<close>, of which there are as many as before.
\<close>

theorem validation_keeps_extra_fields:
  assumes "is_AgentOutput v"
  shows "\<exists>n. schema_validator v = Inr n
    \<and> (\<forall>k. k \<notin> set ExtractionOutput_fields \<longrightarrow>
          map_of (fields_of n) k = map_of (fields_of v) k)
    \<and> (\<forall>k. k \<notin> set Paper_fields \<longrightarrow>
          map_of (fields_of (dict_get (fields_of n) ''paper'')) k =
          map_of (fields_of (dict_get (fields_of v) ''paper'')) k)
    \<and> (\<forall>k. k \<notin> set ExtractionMetadata_fields \<longrightarrow>
          map_of (fields_of (dict_get (fields_of n) ''extraction_metadata'')) k =
          map_of (fields_of (dict_get (fields_of v) ''extraction_metadata'')) k)
    \<and> length (items_of (dict_get (fields_of n) ''equations'')) =
        length (items_of (dict_get (fields_of v) ''equations''))
    \<and> (\<forall>i k. i < length (items_of (dict_get (fields_of v) ''equations''))
               \<and> k \<notin> set Equation_fields \<longrightarrow>
          map_of (fields_of (items_of (dict_get (fields_of n) ''equations'') ! i)) k =
          map_of (fields_of (items_of (dict_get (fields_of v) ''equations'') ! i)) k)"
proof -
  from assms obtain d p es m where v: "v = JDict d"
    and parts: "map_of d ''paper'' = Some p" "is_Paper p"
      "map_of d ''equations'' = Some (JList es)" "list_all is_Equation es"
      "map_of d ''extraction_metadata'' = Some m" "is_Metadata m"
    by (rule is_AgentOutput_cases)
  from model_validate_ok [OF parts] obtain out where
    out: "model_validate (JDict d) = Inr out"
    and top: "output_extra out = extra_fields ExtractionOutput_fields d"
    and pap: "paper_extra (paper out) = extra_fields Paper_fields (fields_of p)"
    and eqs: "map equation_extra (equations out) =
               map (\<lambda>v. extra_fields Equation_fields (fields_of v)) es"
    and met: "metadata_extra (extraction_metadata out) =
               extra_fields ExtractionMetadata_fields (fields_of m)"
    by blast
  have src: "dict_get (fields_of v) ''paper'' = p" "dict_get (fields_of v) ''equations'' = JList es"
    "dict_get (fields_of v) ''extraction_metadata'' = m"
    using parts by (simp_all add: v fields_of_def dict_get_def dict_get_default_def)
  have len: "length (equations out) = length es"
    using arg_cong [OF eqs, of length] by simp
  have n: "schema_validator v = Inr (model_dump out)"
    by (simp add: schema_validator_def v out)
  have 1: "\<forall>k. k \<notin> set ExtractionOutput_fields \<longrightarrow>
          map_of (fields_of (model_dump out)) k = map_of (fields_of v) k"
    by (simp add: fields_of_model_dump top map_of_extra_fields) (simp add: v fields_of_def)
  have 2: "\<forall>k. k \<notin> set Paper_fields \<longrightarrow>
          map_of (fields_of (dict_get (fields_of (model_dump out)) ''paper'')) k =
          map_of (fields_of (dict_get (fields_of v) ''paper'')) k"
    by (simp add: model_dump_parts src fields_of_dump_Paper pap map_of_extra_fields)
  have 3: "\<forall>k. k \<notin> set ExtractionMetadata_fields \<longrightarrow>
          map_of (fields_of (dict_get (fields_of (model_dump out)) ''extraction_metadata'')) k =
          map_of (fields_of (dict_get (fields_of v) ''extraction_metadata'')) k"
    by (simp add: model_dump_parts src fields_of_dump_Metadata met map_of_extra_fields)
  have 4: "length (items_of (dict_get (fields_of (model_dump out)) ''equations'')) =
        length (items_of (dict_get (fields_of v) ''equations''))"
    by (simp add: model_dump_parts src items_of_def len)
  have 5: "\<forall>i k. i < length (items_of (dict_get (fields_of v) ''equations''))
               \<and> k \<notin> set Equation_fields \<longrightarrow>
          map_of (fields_of (items_of (dict_get (fields_of (model_dump out)) ''equations'') ! i)) k =
          map_of (fields_of (items_of (dict_get (fields_of v) ''equations'') ! i)) k"
  proof (intro allI impI, elim conjE)
    fix i k
    assume i: "i < length (items_of (dict_get (fields_of v) ''equations''))"
      and k: "k \<notin> set Equation_fields"
    from i have i': "i < length es" by (simp add: src items_of_def)
    have "equation_extra (equations out ! i) = extra_fields Equation_fields (fields_of (es ! i))"
      using arg_cong [OF eqs, of "\<lambda>xs. xs ! i"] i' len by simp
    with i' len k show "map_of (fields_of (items_of (dict_get (fields_of (model_dump out)) ''equations'') ! i)) k =
          map_of (fields_of (items_of (dict_get (fields_of v) ''equations'') ! i)) k"
      by (simp add: model_dump_parts src items_of_def fields_of_dump_Equation map_of_extra_fields)
  qed
  from n 1 2 3 4 5 show ?thesis by blast
qed

subsection \<open>Validating twice\<close>

lemma revalidate_optional_str:
  "validate_optional_str loc (dump_optional_str a) = Inr a"
  by (cases a) simp_all

lemma revalidate_optional_int_or_str:
  "validate_optional_int_or_str loc (dump_optional_int_or_str a) = Inr a"
  by (cases a rule: dump_optional_int_or_str.cases) simp_all

lemma extra_fields_append:
  "extra_fields declared (xs @ ys) = extra_fields declared xs @ extra_fields declared ys"
  by (simp add: extra_fields_def)

lemma revalidate_Paper:
  assumes "validate_Paper loc v = Inr p"
  shows "validate_Paper loc' (dump_Paper p) = Inr p"
proof -
  from assms obtain d where d: "v = JDict d"
    by (cases v) (simp_all add: validate_Paper_def field_error_def)
  from assms have ex: "paper_extra p = extra_fields Paper_fields d"
    by (auto simp: d validate_Paper_def Let_def split: sum.splits)
  have "extra_fields Paper_fields (paper_extra p) = paper_extra p"
    by (simp add: ex extra_fields_idem)
  then show ?thesis
    by (simp add: validate_Paper_def dump_Paper_def dict_get_def dict_get_default_def
        revalidate_optional_str revalidate_optional_int_or_str extra_fields_append)
       (simp add: extra_fields_def Paper_fields_def)
qed


lemma revalidate_Equation:
  assumes "validate_Equation loc v = Inr e"
  shows "validate_Equation loc' (dump_Equation e) = Inr e"
proof -
  from assms obtain d where d: "v = JDict d"
    by (cases v) (simp_all add: validate_Equation_def field_error_def)
  from assms have ex: "equation_extra e = extra_fields Equation_fields d"
    by (auto simp: d validate_Equation_def Let_def split: sum.splits)
  have "extra_fields Equation_fields (equation_extra e) = equation_extra e"
    by (simp add: ex extra_fields_idem)
  then show ?thesis
    by (simp add: validate_Equation_def dump_Equation_def dict_get_def dict_get_default_def
        revalidate_optional_str extra_fields_append)
       (simp add: extra_fields_def Equation_fields_def)
qed

lemma revalidate_Metadata:
  assumes "validate_ExtractionMetadata loc v = Inr m"
  shows "validate_ExtractionMetadata loc' (dump_ExtractionMetadata m) = Inr m"
proof -
  from assms obtain d where d: "v = JDict d"
    by (cases v) (simp_all add: validate_ExtractionMetadata_def field_error_def)
  from assms have ex: "metadata_extra m = extra_fields ExtractionMetadata_fields d"
    by (auto simp: d validate_ExtractionMetadata_def Let_def split: sum.splits)
  have "extra_fields ExtractionMetadata_fields (metadata_extra m) = metadata_extra m"
    by (simp add: ex extra_fields_idem)
  then show ?thesis
    by (simp add: validate_ExtractionMetadata_def dump_ExtractionMetadata_def dict_get_def
        dict_get_default_def revalidate_optional_str extra_fields_append)
       (simp add: extra_fields_def ExtractionMetadata_fields_def)
qed

lemma revalidate_items:
  assumes "validate_items loc i vs = Inr es"
  shows "validate_items loc' j (map dump_Equation es) = Inr es"
  using assms
proof (induction vs arbitrary: i j es)
  case Nil
  then show ?case by simp
next
  case (Cons v vs)
  from Cons.prems obtain e es' where
    e: "validate_Equation (loc @ [Pos i]) v = Inr e"
    and es': "validate_items loc (Suc i) vs = Inr es'"
    and es: "es = e # es'"
    by (auto simp: Let_def split: sum.splits)
  from revalidate_Equation [OF e] Cons.IH [OF es'] show ?case
    by (simp add: es)
qed

lemma model_validate_parts:
  assumes "model_validate v = Inr out"
  obtains d p e m where "v = JDict d"
    "map_of d ''paper'' = Some p" "validate_Paper [Key ''paper''] p = Inr (paper out)"
    "map_of d ''equations'' = Some (JList e)"
    "validate_items [Key ''equations''] 0 e = Inr (equations out)"
    "map_of d ''extraction_metadata'' = Some m"
    "validate_ExtractionMetadata [Key ''extraction_metadata''] m = Inr (extraction_metadata out)"
    "output_extra out = extra_fields ExtractionOutput_fields d"
proof -
  from assms obtain d where d: "v = JDict d"
    by (cases v) (simp_all add: model_validate_def field_error_def)
  from assms d obtain P ES M where
    r: "required_field d ''paper'' validate_Paper = Inr P"
       "required_field d ''equations'' validate_Equation_list = Inr ES"
       "required_field d ''extraction_metadata'' validate_ExtractionMetadata = Inr M"
    and out: "out = \<lparr>paper = P, equations = ES, extraction_metadata = M,
                    output_extra = extra_fields ExtractionOutput_fields d\<rparr>"
    by (auto simp: model_validate_def Let_def split: sum.splits)
  from r(1) obtain p where p: "map_of d ''paper'' = Some p" "validate_Paper [Key ''paper''] p = Inr P"
    by (cases "map_of d ''paper''") (simp_all add: required_field_def field_error_def)
  from r(3) obtain m where m: "map_of d ''extraction_metadata'' = Some m"
      "validate_ExtractionMetadata [Key ''extraction_metadata''] m = Inr M"
    by (cases "map_of d ''extraction_metadata''") (simp_all add: required_field_def field_error_def)
  from r(2) obtain e' where e': "map_of d ''equations'' = Some e'"
      "validate_Equation_list [Key ''equations''] e' = Inr ES"
    by (cases "map_of d ''equations''") (simp_all add: required_field_def field_error_def)
  from e'(2) obtain e where e: "e' = JList e" "validate_items [Key ''equations''] 0 e = Inr ES"
    by (cases e') (simp_all add: validate_Equation_list_def field_error_def)
  from d p m e' e out that show thesis by simp
qed

lemma revalidate_model:
  assumes "model_validate v = Inr out"
  shows "model_validate (model_dump out) = Inr out"
proof -
  from assms obtain d p e m where
    P: "validate_Paper [Key ''paper''] p = Inr (paper out)"
    and E: "validate_items [Key ''equations''] 0 e = Inr (equations out)"
    and M: "validate_ExtractionMetadata [Key ''extraction_metadata''] m = Inr (extraction_metadata out)"
    and X: "output_extra out = extra_fields ExtractionOutput_fields d"
    by (rule model_validate_parts)
  have "extra_fields ExtractionOutput_fields (output_extra out) = output_extra out"
    by (simp add: X extra_fields_idem)
  then show ?thesis
    by (simp add: model_validate_def model_dump_def required_field_def validate_Equation_list_def
        revalidate_Paper [OF P] revalidate_items [OF E] revalidate_Metadata [OF M]
        extra_fields_append)
       (simp add: extra_fields_def ExtractionOutput_fields_def)
qed

text \<open>
  Claim C9. A normalized value that the schema validator has returned is accepted when
  validated again, and the result is the same normalized value.
\<close>

theorem validation_idempotent:
  assumes "schema_validator v = Inr n"
  shows "schema_validator n = Inr n"
proof -
  from assms obtain out where out: "model_validate v = Inr out" and n: "n = model_dump out"
    by (auto simp: schema_validator_def split: sum.splits)
  from revalidate_model [OF out] show ?thesis
    by (simp add: schema_validator_def n)
qed


subsection \<open>The error list\<close>

lemma error_paths_field_error [simp]: "error_paths (field_error loc msg) = {loc}"
  by (simp add: error_paths_def field_error_def)

lemma error_paths_optional_str:
  "\<not> is_optional_str v \<Longrightarrow> loc \<in> error_paths (validate_optional_str loc v)"
  by (cases v) (simp_all add: is_optional_str_def)

lemma error_paths_optional_int_or_str:
  "\<not> is_optional_int_or_str v \<Longrightarrow> loc \<in> error_paths (validate_optional_int_or_str loc v)"
  by (cases v) (simp_all add: is_optional_int_or_str_def)

lemma errors_of_validate_Paper:
  "errors_of (validate_Paper loc (JDict d)) =
     errors_of (validate_optional_str (loc @ [Key ''doi'']) (dict_get d ''doi''))
     @ errors_of (validate_optional_str (loc @ [Key ''title'']) (dict_get d ''title''))
     @ errors_of (validate_optional_int_or_str (loc @ [Key ''year'']) (dict_get d ''year''))"
  by (simp add: validate_Paper_def Let_def split: sum.split)

lemma errors_of_validate_Equation:
  "errors_of (validate_Equation loc (JDict d)) =
     errors_of (validate_optional_str (loc @ [Key ''latex'']) (dict_get d ''latex''))"
  by (simp add: validate_Equation_def Let_def split: sum.split)

lemma errors_of_validate_Metadata:
  "errors_of (validate_ExtractionMetadata loc (JDict d)) =
     errors_of (validate_optional_str (loc @ [Key ''task_id'']) (dict_get d ''task_id''))
     @ errors_of (validate_optional_str (loc @ [Key ''input_doi'']) (dict_get d ''input_doi''))
     @ errors_of (validate_optional_str (loc @ [Key ''schema_name'']) (dict_get d ''schema_name''))
     @ errors_of (validate_optional_str (loc @ [Key ''schema_version'']) (dict_get d ''schema_version''))"
  by (simp add: validate_ExtractionMetadata_def Let_def split: sum.split)

lemma errors_of_validate_items:
  "errors_of (validate_items loc i (v # vs)) =
     errors_of (validate_Equation (loc @ [Pos i]) v) @ errors_of (validate_items loc (Suc i) vs)"
  by (simp add: Let_def split: sum.split)

lemma errors_of_model_validate:
  "errors_of (model_validate (JDict d)) =
     errors_of (required_field d ''paper'' validate_Paper)
     @ errors_of (required_field d ''equations'' validate_Equation_list)
     @ errors_of (required_field d ''extraction_metadata'' validate_ExtractionMetadata)"
  by (simp add: model_validate_def Let_def split: sum.split)

lemma error_paths_append:
  "field_path ` set (xs @ ys) = field_path ` set xs \<union> field_path ` set ys"
  by auto

lemma error_paths_items:
  assumes "i < length vs"
  shows "error_paths (validate_Equation (loc @ [Pos (j + i)]) (vs ! i))
           \<subseteq> error_paths (validate_items loc j vs)"
  using assms
proof (induction vs arbitrary: i j)
  case Nil
  then show ?case by simp
next
  case (Cons v vs)
  show ?case
  proof (cases i)
    case 0
    then show ?thesis
      unfolding error_paths_def errors_of_validate_items by auto
  next
    case (Suc i')
    with Cons.prems have "i' < length vs" by simp
    from Cons.IH [OF this, of "Suc j"] Suc show ?thesis
      unfolding error_paths_def errors_of_validate_items by auto
  qed
qed

lemma not_record_validate_Equation:
  "\<not> is_record v \<Longrightarrow> loc \<in> error_paths (validate_Equation loc v)"
  by (cases v) (simp_all add: is_record_def validate_Equation_def)

lemma not_record_validate_Paper:
  "\<not> is_record v \<Longrightarrow> loc \<in> error_paths (validate_Paper loc v)"
  by (cases v) (simp_all add: is_record_def validate_Paper_def)

lemma not_record_validate_Metadata:
  "\<not> is_record v \<Longrightarrow> loc \<in> error_paths (validate_ExtractionMetadata loc v)"
  by (cases v) (simp_all add: is_record_def validate_ExtractionMetadata_def)

lemma not_list_validate_Equation_list:
  "\<not> is_list v \<Longrightarrow> loc \<in> error_paths (validate_Equation_list loc v)"
  by (cases v) (simp_all add: is_list_def validate_Equation_list_def)

lemma error_paths_model_validate:
  "error_paths (model_validate (JDict d)) =
     error_paths (required_field d ''paper'' validate_Paper)
     \<union> error_paths (required_field d ''equations'' validate_Equation_list)
     \<union> error_paths (required_field d ''extraction_metadata'' validate_ExtractionMetadata)"
  by (simp add: error_paths_def errors_of_model_validate image_Un Un_assoc)

lemma required_field_present:
  "map_of d k = Some v \<Longrightarrow> required_field d k validate = validate [Key k] v"
  by (simp add: required_field_def)

lemma required_field_missing:
  "map_of d k = None \<Longrightarrow> error_paths (required_field d k validate) = {[Key k]}"
  by (simp add: required_field_def)

lemma field_level_error_reported:
  assumes "field_level_error v loc"
  shows "loc \<in> error_paths (model_validate v)"
  using assms
proof cases
  case not_a_record
  then show ?thesis
    by (cases v) (simp_all add: is_record_def model_validate_def)
next
  case (missing_field k d)
  then show ?thesis
    by (auto simp: error_paths_model_validate required_field_missing ExtractionOutput_fields_def)
next
  case (paper_not_a_record d p)
  then show ?thesis
    using not_record_validate_Paper [of p "[Key ''paper'']"]
    by (simp add: error_paths_model_validate required_field_present)
next
  case (paper_string_field d pd k)
  from paper_string_field(4,5)
  have "[Key ''paper'', Key k] \<in> error_paths (validate_Paper [Key ''paper''] (JDict pd))"
    using error_paths_optional_str [of "dict_get pd k" "[Key ''paper'', Key k]"]
    by (auto simp: error_paths_def errors_of_validate_Paper)
  with paper_string_field(1-3) show ?thesis
    by (simp add: error_paths_model_validate required_field_present)
next
  case (paper_year d pd)
  from paper_year(4)
  have "[Key ''paper'', Key ''year''] \<in> error_paths (validate_Paper [Key ''paper''] (JDict pd))"
    using error_paths_optional_int_or_str [of "dict_get pd ''year''" "[Key ''paper'', Key ''year'']"]
    by (auto simp: error_paths_def errors_of_validate_Paper)
  with paper_year(1-3) show ?thesis
    by (simp add: error_paths_model_validate required_field_present)
next
  case (equations_not_a_list d e)
  then show ?thesis
    using not_list_validate_Equation_list [of e "[Key ''equations'']"]
    by (simp add: error_paths_model_validate required_field_present)
next
  case (equation_not_a_record d es i)
  from equation_not_a_record(4,5)
  have "[Key ''equations'', Pos i] \<in> error_paths (validate_items [Key ''equations''] 0 es)"
    using error_paths_items [of i es "[Key ''equations'']" 0]
      not_record_validate_Equation [of "es ! i" "[Key ''equations'', Pos i]"]
    by auto
  with equation_not_a_record(1-3) show ?thesis
    by (simp add: error_paths_model_validate required_field_present validate_Equation_list_def)
next
  case (equation_latex d es i ed)
  from equation_latex(4-6)
  have "[Key ''equations'', Pos i, Key ''latex'']
          \<in> error_paths (validate_Equation [Key ''equations'', Pos i] (es ! i))"
    using error_paths_optional_str [of "dict_get ed ''latex''" "[Key ''equations'', Pos i, Key ''latex'']"]
    by (simp add: error_paths_def errors_of_validate_Equation)
  with equation_latex(4)
  have "[Key ''equations'', Pos i, Key ''latex'']
          \<in> error_paths (validate_items [Key ''equations''] 0 es)"
    using error_paths_items [of i es "[Key ''equations'']" 0] by auto
  with equation_latex(1-3) show ?thesis
    by (simp add: error_paths_model_validate required_field_present validate_Equation_list_def)
next
  case (metadata_not_a_record d m)
  then show ?thesis
    using not_record_validate_Metadata [of m "[Key ''extraction_metadata'']"]
    by (simp add: error_paths_model_validate required_field_present)
next
  case (metadata_string_field d md k)
  from metadata_string_field(4,5)
  have "[Key ''extraction_metadata'', Key k]
          \<in> error_paths (validate_ExtractionMetadata [Key ''extraction_metadata''] (JDict md))"
    using error_paths_optional_str [of "dict_get md k" "[Key ''extraction_metadata'', Key k]"]
    by (auto simp: error_paths_def errors_of_validate_Metadata ExtractionMetadata_fields_def)
  with metadata_string_field(1-3) show ?thesis
    by (simp add: error_paths_model_validate required_field_present)
qed


lemmas validator_defs =
  schema_validator_def model_validate_def required_field_def validate_Paper_def
  validate_Equation_list_def validate_Equation_def validate_ExtractionMetadata_def
  field_error_def dict_get_def dict_get_default_def extra_fields_def Paper_fields_def
  Equation_fields_def ExtractionMetadata_fields_def ExtractionOutput_fields_def model_dump_def
  dump_Paper_def dump_Equation_def dump_ExtractionMetadata_def

lemma schema_validator_sample: "schema_validator sample_output = Inr sample_normalized"
  by (simp add: sample_output_def sample_normalized_def validator_defs)

theorem validation_keeps_extra_fields_witness:
  "\<exists>n. schema_validator sample_output = Inr n
     \<and> map_of (fields_of n) ''source'' = Some (JStr ''ocr'')
     \<and> map_of (fields_of (dict_get (fields_of n) ''paper'')) ''journal'' = Some (JStr ''JDS'')
     \<and> map_of (fields_of (dict_get (fields_of n) ''extraction_metadata'')) ''run'' = Some (JInt 3)
     \<and> map_of (fields_of (items_of (dict_get (fields_of n) ''equations'') ! 0)) ''units''
         = Some (JStr ''kg'')"
proof -
  have "is_AgentOutput sample_output"
    by (simp add: sample_output_def is_AgentOutput_def is_Paper_def is_Equation_def
        is_Metadata_def is_optional_str_def is_optional_int_or_str_def dict_get_def
        dict_get_default_def)
  from validation_keeps_extra_fields [OF this] obtain n where
    n: "schema_validator sample_output = Inr n"
    and 1: "\<forall>k. k \<notin> set ExtractionOutput_fields \<longrightarrow>
          map_of (fields_of n) k = map_of (fields_of sample_output) k"
    and 2: "\<forall>k. k \<notin> set Paper_fields \<longrightarrow>
          map_of (fields_of (dict_get (fields_of n) ''paper'')) k =
          map_of (fields_of (dict_get (fields_of sample_output) ''paper'')) k"
    and 3: "\<forall>k. k \<notin> set ExtractionMetadata_fields \<longrightarrow>
          map_of (fields_of (dict_get (fields_of n) ''extraction_metadata'')) k =
          map_of (fields_of (dict_get (fields_of sample_output) ''extraction_metadata'')) k"
    and 5: "\<forall>i k. i < length (items_of (dict_get (fields_of sample_output) ''equations''))
               \<and> k \<notin> set Equation_fields \<longrightarrow>
          map_of (fields_of (items_of (dict_get (fields_of n) ''equations'') ! i)) k =
          map_of (fields_of (items_of (dict_get (fields_of sample_output) ''equations'') ! i)) k"
    by blast
  from 1 have a: "map_of (fields_of n) ''source'' = Some (JStr ''ocr'')"
    by (simp add: ExtractionOutput_fields_def sample_output_def fields_of_def)
  from 2 have b: "map_of (fields_of (dict_get (fields_of n) ''paper'')) ''journal'' = Some (JStr ''JDS'')"
    by (simp add: Paper_fields_def sample_output_def fields_of_def dict_get_def dict_get_default_def)
  from 3 have c: "map_of (fields_of (dict_get (fields_of n) ''extraction_metadata'')) ''run'' = Some (JInt 3)"
    by (simp add: ExtractionMetadata_fields_def sample_output_def fields_of_def dict_get_def
        dict_get_default_def)
  from 5 [rule_format, of 0 "''units''"]
  have d: "map_of (fields_of (items_of (dict_get (fields_of n) ''equations'') ! 0)) ''units''
         = Some (JStr ''kg'')"
    by (simp add: Equation_fields_def sample_output_def fields_of_def items_of_def dict_get_def
        dict_get_default_def)
  from n a b c d show ?thesis by blast
qed

theorem validation_idempotent_witness:
  "schema_validator sample_output = Inr sample_normalized
   \<and> schema_validator sample_normalized = Inr sample_normalized"
  using validation_idempotent [OF schema_validator_sample] schema_validator_sample
  by simp

lemma loc_item_json_cases:
  "loc_item_json = (\<lambda>i. case i of Key k \<Rightarrow> JStr k | Pos n \<Rightarrow> JInt (int n))"
  by (rule ext) (simp split: loc_item.split)

text \<open>
  Claim C8. For a request with an \<^verbatim>\<open>id\<close> whose \<^verbatim>\<open>params\<close> yield a text, when the output of
  the agent function fails validation the handler returns the error response written
  out below: its \<^verbatim>\<open>error\<close> has code -32000, the schema message, and a \<^verbatim>\<open>data\<close> record
  that holds under \<^verbatim>\<open>validation_errors\<close> one entry, path and message, for each error of
  the validator's list, in the order of that list. And that list has an entry at the
  path of every field-level error of the output, not only of the first.
\<close>

theorem schema_violation_reported:
  assumes "dict_get_default b ''id'' JNull = rpc_id" and "rpc_id \<noteq> JNull"
    and "extract_input_from_jsonrpc (dict_get_default b ''params'' (JDict [])) = (Some t, meta)"
    and "call_agent agent t meta = Inr output_dict"
    and "schema_validator output_dict = Inl errors"
  shows "snd (handle_single_jsonrpc (JDict b) agent) =
           Inr (Some (JDict
             [(''jsonrpc'', JStr ''2.0''), (''id'', rpc_id),
              (''error'',
               JDict
                [(''code'', JInt (- 32000)),
                 (''message'',
                  JStr ''White agent returned JSON that does not match required schema (paper/equations/extraction_metadata).''),
                 (''data'',
                  JDict
                   [(''validation_errors'',
                     JList (map (\<lambda>e. JDict
                        [(''field_path'',
                          JList (map (\<lambda>i. case i of Key k \<Rightarrow> JStr k | Pos n \<Rightarrow> JInt (int n))
                                   (field_path e))),
                         (''message'', JStr (message e))]) errors))])])]))
       \<and> (\<forall>loc. field_level_error output_dict loc \<longrightarrow> loc \<in> field_path ` set errors)"
proof -
  from assms(5) have mv: "model_validate output_dict = Inl errors"
    by (simp add: schema_validator_def split: sum.splits)
  have entries: "map FieldError_json errors =
      map (\<lambda>e. JDict
        [(''field_path'',
          JList (map (\<lambda>i. case i of Key k \<Rightarrow> JStr k | Pos n \<Rightarrow> JInt (int n)) (field_path e))),
         (''message'', JStr (message e))]) errors"
    by (simp add: FieldError_json_def loc_item_json_cases)
  from handle_with_text [OF assms(1,2) refl assms(3), of agent] assms(4) mv
  have "snd (handle_single_jsonrpc (JDict b) agent) =
           Inr (Some (jsonrpc_error rpc_id (- 32000) schema_mismatch_message
                  (JDict [(''validation_errors'', JList (map FieldError_json errors))])))"
    by simp
  then have response: "snd (handle_single_jsonrpc (JDict b) agent) =
           Inr (Some (JDict
             [(''jsonrpc'', JStr ''2.0''), (''id'', rpc_id),
              (''error'',
               JDict
                [(''code'', JInt (- 32000)),
                 (''message'',
                  JStr ''White agent returned JSON that does not match required schema (paper/equations/extraction_metadata).''),
                 (''data'',
                  JDict
                   [(''validation_errors'',
                     JList (map (\<lambda>e. JDict
                        [(''field_path'',
                          JList (map (\<lambda>i. case i of Key k \<Rightarrow> JStr k | Pos n \<Rightarrow> JInt (int n))
                                   (field_path e))),
                         (''message'', JStr (message e))]) errors))])])]))"
    unfolding entries
    by (simp add: jsonrpc_error_def schema_mismatch_message_def)
  have "\<forall>loc. field_level_error output_dict loc \<longrightarrow> loc \<in> field_path ` set errors"
    using field_level_error_reported [of output_dict] mv
    by (simp add: error_paths_def)
  with response show ?thesis by (rule conjI)
qed

theorem schema_violation_reported_witness:
  "snd (handle_single_jsonrpc (text_request 1 ''y = a + bx'') (Some malformed_agent)) =
     Inr (Some (JDict
       [(''jsonrpc'', JStr ''2.0''), (''id'', JInt 1),
        (''error'',
         JDict
          [(''code'', JInt (- 32000)),
           (''message'',
            JStr ''White agent returned JSON that does not match required schema (paper/equations/extraction_metadata).''),
           (''data'',
            JDict
             [(''validation_errors'',
               JList
                [JDict [(''field_path'', JList [JStr ''paper'', JStr ''doi'']),
                        (''message'', JStr ''Input should be a valid string'')],
                 JDict [(''field_path'', JList [JStr ''equations'', JInt 1, JStr ''latex'']),
                        (''message'', JStr ''Input should be a valid string'')],
                 JDict [(''field_path'', JList [JStr ''extraction_metadata'']),
                        (''message'', JStr ''Field required'')]])])])]))"
proof -
  let ?b = "[(''jsonrpc'', JStr ''2.0''), (''id'', JInt 1), (''method'', JStr ''extract''),
            (''params'', JDict [(''input_text'', JStr ''y = a + bx'')])]"
  let ?out = "JDict [(''paper'', JDict [(''doi'', JInt 5)]),
                 (''equations'', JList [JDict [(''latex'', JStr ''y = ax'')],
                                         JDict [(''latex'', JInt 7)]])]"
  let ?errors = "[\<lparr>field_path = [Key ''paper'', Key ''doi''], message = ''Input should be a valid string''\<rparr>,
                  \<lparr>field_path = [Key ''equations'', Pos 1, Key ''latex''],
                   message = ''Input should be a valid string''\<rparr>,
                  \<lparr>field_path = [Key ''extraction_metadata''], message = ''Field required''\<rparr>]"
  have 1: "dict_get_default ?b ''id'' JNull = JInt 1"
    by (simp add: dict_get_default_def)
  have 2: "JInt 1 \<noteq> JNull" by simp
  have 3: "extract_input_from_jsonrpc (dict_get_default ?b ''params'' (JDict [])) = (Some ''y = a + bx'', [])"
    by (simp add: dict_get_default_def extract_input_text_only py_isspace_def)
  have 4: "call_agent (Some malformed_agent) ''y = a + bx'' [] = Inr ?out"
    by (simp add: call_agent_def malformed_agent_def)
  have 5: "schema_validator ?out = Inl ?errors"
    by (simp add: validator_defs)
  from schema_violation_reported [OF 1 2 3 4 5] show ?thesis
    by (simp add: text_request_def)
qed

end
